theory Spec2Isabelle
  imports Main "HOL-Library.AList"
begin

section \<open>Values, errors and records\<close>

text \<open>
  A decoded JSON value, as the API returns it and as a record stores it. A Python
  \<^verbatim>\<open>dict\<close> keeps its keys in insertion order and has each key once: it is an
  association list whose keys are distinct, \<^verbatim>\<open>d[k] = v\<close> is \<open>AList.update k v d\<close>
  (an existing key keeps its place, a new key goes last), \<^verbatim>\<open>d[k]\<close> and
  \<^verbatim>\<open>d.get(k)\<close> read \<open>map_of d k\<close>. Floating-point numbers are not represented;
  every type test of the source treats them as it treats an integer.
\<close>

datatype pyval =
    PNone
  | PBool bool
  | PInt int
  | PStr string
  | PList "pyval list"
  | PDict "(string \<times> pyval) list"

type_synonym dict = "(string \<times> pyval) list"

text \<open>
  The exceptions the modelled code raises or lets through. \<open>OmiseError\<close> is the error
  raised for an error payload; \<open>TransportError\<close> stands for whatever the HTTP stack or
  the JSON decoder raises.
\<close>

datatype pyerr =
    AttributeError string
  | KeyError string
  | IndexError string
  | TypeError string
  | ValueError string
  | TransportError string
  | OmiseError "pyval option" "pyval option"

text \<open>The classes of the module: the ten registered ones and the generic \<open>Base\<close>.\<close>

datatype cls =
    Account | Balance | Token | Card | Charge | Customer | Refund | Transfer
  | Transaction | Collection | Base

text \<open>
  An instance of \<open>Base\<close> or of a subclass. \<open>attributes\<close> is \<^verbatim>\<open>self._attributes\<close>.
  \<open>changeset\<close> is \<^verbatim>\<open>self._changes\<close>, a Python set: the model keeps its elements in
  a list without repetition, and no theorem below depends on the order of that list.
  \<open>own\<close> holds the other underscore-prefixed names that
  \<^verbatim>\<open>__setattr__\<close> hands to \<^verbatim>\<open>object.__setattr__\<close>.
\<close>

record inst =
  cls_of :: cls
  attributes :: dict
  changeset :: "string list"
  own :: dict

text \<open>
  What the object factory returns: a value passed through unchanged, a new list of
  materialized elements, or an instance.
\<close>

datatype obj =
    ORaw pyval
  | OList "obj list"
  | OInst inst

section \<open>The object factory\<close>

text \<open>\<^verbatim>\<open>_get_class_for\<close>: the registry is a dict literal read with \<^verbatim>\<open>.get(type)\<close>,
  which hashes its argument first: a list or a dict is unhashable and raises
  \<^verbatim>\<open>TypeError\<close>; any other value that is not a registered string gives \<^verbatim>\<open>None\<close>.\<close>

definition registry :: "(string \<times> cls) list" where
  "registry =
    [(''account'', Account),
     (''balance'', Balance),
     (''token'', Token),
     (''card'', Card),
     (''charge'', Charge),
     (''customer'', Customer),
     (''refund'', Refund),
     (''transfer'', Transfer),
     (''transaction'', Transaction),
     (''list'', Collection)]"

fun get_class_for :: "pyval \<Rightarrow> pyerr + cls option" where
  "get_class_for (PStr t) = Inr (map_of registry t)"
| "get_class_for (PList xs) = Inl (TypeError ''unhashable type: list'')"
| "get_class_for (PDict d) = Inl (TypeError ''unhashable type: dict'')"
| "get_class_for v = Inr None"

text \<open>\<^verbatim>\<open>Base.__init__\<close>, for the class \<open>c\<close> being instantiated.\<close>

definition Base_init :: "cls \<Rightarrow> inst" where
  "Base_init c = \<lparr>cls_of = c, attributes = [], changeset = [], own = []\<rparr>"

text \<open>\<^verbatim>\<open>Base._reload_data\<close>: a fresh dict filled entry by entry in the iteration order
  of \<open>data\<close>, then an empty set of changes; the instance itself is returned.\<close>

definition Base_reload_data :: "dict \<Rightarrow> inst \<Rightarrow> inst" where
  "Base_reload_data data self =
     self\<lparr>attributes := fold (\<lambda>(k, v) a. AList.update k v a) data [],
          changeset := []\<rparr>"

text \<open>\<^verbatim>\<open>Base.from_data\<close>, a class method.\<close>

definition Base_from_data :: "cls \<Rightarrow> dict \<Rightarrow> inst" where
  "Base_from_data c data = Base_reload_data data (Base_init c)"

text \<open>A list comprehension whose element expression may raise: elements are evaluated
  from left to right and the first exception leaves the comprehension.\<close>

fun collect :: "('e + 'a) list \<Rightarrow> 'e + 'a list" where
  "collect [] = Inr []"
| "collect (Inl e # rs) = Inl e"
| "collect (Inr x # rs) = (case collect rs of Inl e \<Rightarrow> Inl e | Inr xs \<Rightarrow> Inr (x # xs))"

text \<open>\<^verbatim>\<open>_as_object\<close>. \<^verbatim>\<open>data['object']\<close> raises \<^verbatim>\<open>KeyError\<close> when the key is
  missing.\<close>

fun as_object :: "pyval \<Rightarrow> pyerr + obj" where
  "as_object (PList xs) =
     (case collect (map as_object xs) of Inl e \<Rightarrow> Inl e | Inr os \<Rightarrow> Inr (OList os))"
| "as_object (PDict data) =
     (case map_of data ''object'' of
        None \<Rightarrow> Inl (KeyError ''object'')
      | Some t \<Rightarrow>
          (case get_class_for t of
             Inl e \<Rightarrow> Inl e
           | Inr class \<Rightarrow>
               Inr (OInst (Base_from_data (case class of None \<Rightarrow> Base | Some c \<Rightarrow> c) data))))"
| "as_object v = Inr (ORaw v)"

section \<open>The change-tracking record\<close>

text \<open>\<^verbatim>\<open>Base.__setattr__\<close>. \<^verbatim>\<open>key[0]\<close> raises \<^verbatim>\<open>IndexError\<close> on the empty name.
  A name that starts with an underscore goes to \<^verbatim>\<open>object.__setattr__\<close>, here the
  \<open>own\<close> store (the two internal names \<^verbatim>\<open>_attributes\<close> and \<^verbatim>\<open>_changes\<close> are bound
  by the class's own methods only: \<open>Base_init\<close> and \<open>Base_reload_data\<close>); any other
  name is added to the set of changes and stored in the mapping.\<close>

definition Base_setattr :: "string \<Rightarrow> pyval \<Rightarrow> inst \<Rightarrow> pyerr + inst" where
  "Base_setattr key val self =
     (case key of
        [] \<Rightarrow> Inl (IndexError ''string index out of range'')
      | c # cs \<Rightarrow>
          if c = CHR ''_'' then Inr (self\<lparr>own := AList.update key val (own self)\<rparr>)
          else Inr (self\<lparr>changeset := List.insert key (changeset self),
                         attributes := AList.update key val (attributes self)\<rparr>))"

text \<open>\<^verbatim>\<open>Base.__getattr__\<close>, which Python calls for a name that is neither an instance
  attribute nor a class attribute. The lookup and the call of the object factory both
  stand inside the \<^verbatim>\<open>try\<close>: a \<^verbatim>\<open>KeyError\<close> from either one is raised again as
  an \<^verbatim>\<open>AttributeError\<close> with the same arguments.\<close>

definition Base_getattr :: "string \<Rightarrow> inst \<Rightarrow> pyerr + obj" where
  "Base_getattr key self =
     (case key of
        [] \<Rightarrow> Inl (IndexError ''string index out of range'')
      | c # cs \<Rightarrow>
          if c = CHR ''_'' then Inl (AttributeError key)
          else
            (case map_of (attributes self) key of
               None \<Rightarrow> Inl (AttributeError key)
             | Some val \<Rightarrow>
                 (case val of
                    PDict d \<Rightarrow>
                      (case as_object val of
                         Inl (KeyError a) \<Rightarrow> Inl (AttributeError a)
                       | Inl e \<Rightarrow> Inl e
                       | Inr ob \<Rightarrow> Inr ob)
                  | _ \<Rightarrow> Inr (ORaw val))))"

text \<open>\<^verbatim>\<open>self._attributes.get(c)\<close>: \<^verbatim>\<open>None\<close> for a missing key.\<close>

definition dict_get :: "dict \<Rightarrow> string \<Rightarrow> pyval" where
  "dict_get d k = (case map_of d k of None \<Rightarrow> PNone | Some v \<Rightarrow> v)"

text \<open>The property \<^verbatim>\<open>Base.changes\<close>: a dict built from one pair for each element of the
  set of changes.\<close>

definition changes :: "inst \<Rightarrow> dict" where
  "changes self =
     fold (\<lambda>c a. AList.update c (dict_get (attributes self) c) a) (changeset self) []"

section \<open>Collections\<close>

text \<open>Python's \<^verbatim>\<open>len\<close>, iteration and subscription on the values of the model.\<close>

fun py_len :: "pyval \<Rightarrow> pyerr + nat" where
  "py_len (PList xs) = Inr (length xs)"
| "py_len (PStr s) = Inr (length s)"
| "py_len (PDict d) = Inr (length d)"
| "py_len v = Inl (TypeError ''object has no len()'')"

fun py_iter :: "pyval \<Rightarrow> pyerr + pyval list" where
  "py_iter (PList xs) = Inr xs"
| "py_iter (PStr s) = Inr (map (\<lambda>c. PStr [c]) s)"
| "py_iter (PDict d) = Inr (map (\<lambda>(k, v). PStr k) d)"
| "py_iter v = Inl (TypeError ''object is not iterable'')"

text \<open>A sequence read at an integer index: a negative index counts from the end.\<close>

definition seq_index :: "'a list \<Rightarrow> int \<Rightarrow> pyerr + 'a" where
  "seq_index xs i =
     (if 0 \<le> i \<and> i < int (length xs) then Inr (xs ! nat i)
      else if i < 0 \<and> - int (length xs) \<le> i then Inr (xs ! nat (int (length xs) + i))
      else Inl (IndexError ''index out of range''))"

text \<open>The decimal rendering of an integer, as \<^verbatim>\<open>str\<close> gives it.\<close>

definition digit_char :: "nat \<Rightarrow> char" where
  "digit_char d = ''0123456789'' ! d"

fun digit_string :: "nat \<Rightarrow> string" where
  "digit_string n =
     (if n < 10 then [digit_char n]
      else digit_string (n div 10) @ [digit_char (n mod 10)])"

definition str_of_int :: "int \<Rightarrow> string" where
  "str_of_int i = (if i < 0 then CHR ''-'' # digit_string (nat (- i)) else digit_string (nat i))"

fun py_getitem_int :: "pyval \<Rightarrow> int \<Rightarrow> pyerr + pyval" where
  "py_getitem_int (PList xs) i = seq_index xs i"
| "py_getitem_int (PStr s) i =
     (case seq_index s i of Inl e \<Rightarrow> Inl e | Inr c \<Rightarrow> Inr (PStr [c]))"
| "py_getitem_int (PDict d) i = Inl (KeyError (str_of_int i))"
| "py_getitem_int v i = Inl (TypeError ''object is not subscriptable'')"

fun py_getitem_str :: "pyval \<Rightarrow> string \<Rightarrow> pyerr + pyval" where
  "py_getitem_str (PDict d) k =
     (case map_of d k of None \<Rightarrow> Inl (KeyError k) | Some v \<Rightarrow> Inr v)"
| "py_getitem_str (PList xs) k = Inl (TypeError ''list indices must be integers or slices'')"
| "py_getitem_str (PStr s) k = Inl (TypeError ''string indices must be integers'')"
| "py_getitem_str v k = Inl (TypeError ''object is not subscriptable'')"

text \<open>\<^verbatim>\<open>self._attributes['data']\<close>, and so on: a subscription of the mapping.\<close>

definition attr_item :: "inst \<Rightarrow> string \<Rightarrow> pyerr + pyval" where
  "attr_item self k = py_getitem_str (PDict (attributes self)) k"

text \<open>\<^verbatim>\<open>Collection.__len__\<close>.\<close>

definition Collection_len :: "inst \<Rightarrow> pyerr + nat" where
  "Collection_len self =
     (case attr_item self ''data'' of Inl e \<Rightarrow> Inl e | Inr d \<Rightarrow> py_len d)"

text \<open>\<^verbatim>\<open>Collection.__iter__\<close> is a generator: it yields one materialized element after
  the other and stops at the end of the data or at the first exception. Its run is the
  list of the objects yielded and the exception that ended it, if one did.\<close>

fun yield_each :: "pyval list \<Rightarrow> obj list \<times> pyerr option" where
  "yield_each [] = ([], None)"
| "yield_each (x # xs) =
     (case as_object x of
        Inl e \<Rightarrow> ([], Some e)
      | Inr ob \<Rightarrow> (case yield_each xs of (os, r) \<Rightarrow> (ob # os, r)))"

definition Collection_iter :: "inst \<Rightarrow> obj list \<times> pyerr option" where
  "Collection_iter self =
     (case attr_item self ''data'' of
        Inl e \<Rightarrow> ([], Some e)
      | Inr d \<Rightarrow> (case py_iter d of Inl e \<Rightarrow> ([], Some e) | Inr xs \<Rightarrow> yield_each xs))"

text \<open>\<^verbatim>\<open>list(self)\<close>: the objects of a run that ended normally.\<close>

fun list_of_run :: "obj list \<times> pyerr option \<Rightarrow> pyerr + obj list" where
  "list_of_run (os, None) = Inr os"
| "list_of_run (os, Some e) = Inl e"

text \<open>\<^verbatim>\<open>Collection.__getitem__\<close>, at an integer index.\<close>

definition Collection_getitem :: "inst \<Rightarrow> int \<Rightarrow> pyerr + obj" where
  "Collection_getitem self item =
     (case attr_item self ''data'' of
        Inl e \<Rightarrow> Inl e
      | Inr d \<Rightarrow> (case py_getitem_int d item of Inl e \<Rightarrow> Inl e | Inr x \<Rightarrow> as_object x))"

text \<open>The loop of \<^verbatim>\<open>Collection.retrieve\<close>: the first element whose \<^verbatim>\<open>'id'\<close> equals
  the identifier (a string) is materialized and returned; the end of the loop returns
  \<^verbatim>\<open>None\<close>.\<close>

fun retrieve_loop :: "pyval list \<Rightarrow> string \<Rightarrow> pyerr + obj" where
  "retrieve_loop [] object_id = Inr (ORaw PNone)"
| "retrieve_loop (x # xs) object_id =
     (case py_getitem_str x ''id'' of
        Inl e \<Rightarrow> Inl e
      | Inr i \<Rightarrow> if i = PStr object_id then as_object x else retrieve_loop xs object_id)"

text \<open>\<^verbatim>\<open>Collection.retrieve\<close>, with \<open>None\<close> for the default \<^verbatim>\<open>object_id=None\<close>.\<close>

definition Collection_retrieve :: "inst \<Rightarrow> string option \<Rightarrow> pyerr + obj" where
  "Collection_retrieve self object_id =
     (case object_id of
        None \<Rightarrow>
          (case list_of_run (Collection_iter self) of
             Inl e \<Rightarrow> Inl e
           | Inr os \<Rightarrow> Inr (OList os))
      | Some oid \<Rightarrow>
          (case attr_item self ''data'' of
             Inl e \<Rightarrow> Inl e
           | Inr d \<Rightarrow>
               (case py_iter d of Inl e \<Rightarrow> Inl e | Inr xs \<Rightarrow> retrieve_loop xs oid)))"

section \<open>URL resolution\<close>

text \<open>
  \<^verbatim>\<open>Request._build_path\<close> ends in the standard library's \<^verbatim>\<open>urljoin\<close>. The functions
  of this section follow \<^verbatim>\<open>urllib/parse.py\<close> of CPython 3.11.10 on text strings,
  function by function: \<^verbatim>\<open>_splitparams\<close>, \<^verbatim>\<open>_splitnetloc\<close>, \<^verbatim>\<open>urlsplit\<close>,
  \<^verbatim>\<open>urlparse\<close>, \<^verbatim>\<open>urlunsplit\<close>, \<^verbatim>\<open>urlunparse\<close> and \<^verbatim>\<open>urljoin\<close>. A string is
  its list of characters; a character outside ASCII is a character whose code is 128
  or more.
\<close>

text \<open>Two checks of \<^verbatim>\<open>urlsplit\<close> rest on tables of the standard library and are
  taken as they come: \<^verbatim>\<open>_check_bracketed_host\<close> (the address parser of
  \<^verbatim>\<open>ipaddress\<close>), true when it accepts the host between the brackets, and the NFKC
  comparison of \<^verbatim>\<open>_checknetloc\<close> (\<^verbatim>\<open>unicodedata\<close>), true when it accepts a network
  location that has a character outside ASCII.\<close>

record netloc_checks =
  bracketed_host_valid :: "string \<Rightarrow> bool"
  nfkc_valid :: "string \<Rightarrow> bool"

text \<open>\<^verbatim>\<open>s.split(sep)\<close> for a one-character separator, and \<^verbatim>\<open>sep.join(parts)\<close>.\<close>

fun split_on :: "char \<Rightarrow> string \<Rightarrow> string list" where
  "split_on sep [] = [[]]"
| "split_on sep (c # cs) =
     (case split_on sep cs of
        [] \<Rightarrow> [[c]]
      | q # qs \<Rightarrow> if c = sep then [] # q # qs else (c # q) # qs)"

fun join :: "string \<Rightarrow> string list \<Rightarrow> string" where
  "join sep [] = []"
| "join sep [p] = p"
| "join sep (p # q # ps) = p @ sep @ join sep (q # ps)"

text \<open>The text before the first occurrence of a character, and the text after it.\<close>

definition before :: "char \<Rightarrow> string \<Rightarrow> string" where
  "before c s = takeWhile (\<lambda>x. x \<noteq> c) s"

definition after :: "char \<Rightarrow> string \<Rightarrow> string" where
  "after c s = tl (dropWhile (\<lambda>x. x \<noteq> c) s)"

definition scheme_chars :: string where
  "scheme_chars =
     ''abcdefghijklmnopqrstuvwxyzABCDEFGHIJKLMNOPQRSTUVWXYZ0123456789+-.''"

definition lower_char :: "char \<Rightarrow> char" where
  "lower_char c =
     (if 65 \<le> (of_char c :: nat) \<and> (of_char c :: nat) \<le> 90
      then char_of ((of_char c :: nat) + 32) else c)"

text \<open>The characters of \<^verbatim>\<open>_WHATWG_C0_CONTROL_OR_SPACE\<close> (the codes 0 to 32), those of
  \<^verbatim>\<open>_UNSAFE_URL_BYTES_TO_REMOVE\<close> (tab, carriage return, line feed), the ASCII
  letters (\<^verbatim>\<open>c.isascii() and c.isalpha()\<close>) and the ASCII characters.\<close>

definition c0_control_or_space :: "char \<Rightarrow> bool" where
  "c0_control_or_space c \<longleftrightarrow> (of_char c :: nat) \<le> 32"

definition unsafe_byte :: "char \<Rightarrow> bool" where
  "unsafe_byte c \<longleftrightarrow> (of_char c :: nat) = 9 \<or> (of_char c :: nat) = 13 \<or> (of_char c :: nat) = 10"

definition ascii_alpha :: "char \<Rightarrow> bool" where
  "ascii_alpha c \<longleftrightarrow>
     (65 \<le> (of_char c :: nat) \<and> (of_char c :: nat) \<le> 90)
     \<or> (97 \<le> (of_char c :: nat) \<and> (of_char c :: nat) \<le> 122)"

definition is_ascii :: "char \<Rightarrow> bool" where
  "is_ascii c \<longleftrightarrow> (of_char c :: nat) < 128"

text \<open>\<^verbatim>\<open>s.lstrip(chars)\<close> and \<^verbatim>\<open>s.strip(chars)\<close> for the characters above, and the
  loop that replaces each unsafe character by nothing.\<close>

definition lstrip_c0 :: "string \<Rightarrow> string" where
  "lstrip_c0 s = dropWhile c0_control_or_space s"

definition strip_c0 :: "string \<Rightarrow> string" where
  "strip_c0 s = rev (dropWhile c0_control_or_space (rev (dropWhile c0_control_or_space s)))"

definition remove_unsafe :: "string \<Rightarrow> string" where
  "remove_unsafe s = filter (\<lambda>c. \<not> unsafe_byte c) s"

definition uses_relative :: "string list" where
  "uses_relative =
     ['''', ''ftp'', ''http'', ''gopher'', ''nntp'', ''imap'', ''wais'', ''file'',
      ''https'', ''shttp'', ''mms'', ''prospero'', ''rtsp'', ''rtsps'', ''rtspu'',
      ''sftp'', ''svn'', ''svn+ssh'', ''ws'', ''wss'']"

definition uses_netloc :: "string list" where
  "uses_netloc =
     ['''', ''ftp'', ''http'', ''gopher'', ''nntp'', ''telnet'', ''imap'', ''wais'',
      ''file'', ''mms'', ''https'', ''shttp'', ''snews'', ''prospero'', ''rtsp'',
      ''rtsps'', ''rtspu'', ''rsync'', ''svn'', ''svn+ssh'', ''sftp'', ''nfs'', ''git'',
      ''git+ssh'', ''ws'', ''wss'']"

definition uses_params :: "string list" where
  "uses_params =
     ['''', ''ftp'', ''hdl'', ''prospero'', ''http'', ''imap'', ''https'', ''shttp'',
      ''rtsp'', ''rtsps'', ''rtspu'', ''sip'', ''sips'', ''mms'', ''sftp'', ''tel'']"

text \<open>\<^verbatim>\<open>_splitnetloc(url, 2)\<close>: the network location runs from the third character to
  the first of \<^verbatim>\<open>/\<close>, \<^verbatim>\<open>?\<close> and \<^verbatim>\<open>#\<close>.\<close>

definition splitnetloc :: "string \<Rightarrow> string \<times> string" where
  "splitnetloc url =
     (takeWhile (\<lambda>c. c \<notin> set ''/?#'') (drop 2 url),
      dropWhile (\<lambda>c. c \<notin> set ''/?#'') (drop 2 url))"

text \<open>\<^verbatim>\<open>urlsplit(url, scheme)\<close>: scheme, network location, path, query, fragment.
  The bracketed host is \<^verbatim>\<open>netloc.partition('[')[2].partition(']')[0]\<close>; the call of
  \<^verbatim>\<open>_checknetloc\<close> comes last.\<close>

definition urlsplit ::
  "netloc_checks \<Rightarrow> string \<Rightarrow> string
     \<Rightarrow> pyerr + (string \<times> string \<times> string \<times> string \<times> string)" where
  "urlsplit ck url_arg scheme_arg =
     (let url0 = remove_unsafe (lstrip_c0 url_arg);
          scheme0 = remove_unsafe (strip_c0 scheme_arg);
          (scheme, url1) =
            (if CHR '':'' \<in> set url0 \<and> before CHR '':'' url0 \<noteq> [] \<and> ascii_alpha (hd url0)
                \<and> list_all (\<lambda>c. c \<in> set scheme_chars) (before CHR '':'' url0)
             then (map lower_char (before CHR '':'' url0), after CHR '':'' url0)
             else (scheme0, url0));
          (netloc, url2) =
            (if take 2 url1 = ''//'' then splitnetloc url1 else ('''', url1))
      in if (CHR ''['' \<in> set netloc \<and> CHR '']'' \<notin> set netloc)
            \<or> (CHR '']'' \<in> set netloc \<and> CHR ''['' \<notin> set netloc)
         then Inl (ValueError ''Invalid IPv6 URL'')
         else if CHR ''['' \<in> set netloc \<and> CHR '']'' \<in> set netloc
                 \<and> \<not> bracketed_host_valid ck (before CHR '']'' (after CHR ''['' netloc))
         then Inl (ValueError ''invalid bracketed host'')
         else
           (let (url3, fragment) =
                  (if CHR ''#'' \<in> set url2
                   then (before CHR ''#'' url2, after CHR ''#'' url2) else (url2, ''''));
                (url4, query) =
                  (if CHR ''?'' \<in> set url3
                   then (before CHR ''?'' url3, after CHR ''?'' url3) else (url3, ''''))
            in if netloc \<noteq> [] \<and> \<not> list_all is_ascii netloc \<and> \<not> nfkc_valid ck netloc
               then Inl (ValueError ''netloc contains invalid characters under NFKC normalization'')
               else Inr (scheme, netloc, url4, query, fragment)))"

text \<open>\<^verbatim>\<open>_splitparams\<close>: the parameters start at the first \<^verbatim>\<open>;\<close> of the last path
  segment.\<close>

definition splitparams :: "string \<Rightarrow> string \<times> string" where
  "splitparams url =
     (let lastseg = rev (takeWhile (\<lambda>c. c \<noteq> CHR ''/'') (rev url));
          front = rev (dropWhile (\<lambda>c. c \<noteq> CHR ''/'') (rev url))
      in if CHR '';'' \<in> set lastseg
         then (front @ before CHR '';'' lastseg, after CHR '';'' lastseg)
         else (url, ''''))"

text \<open>\<^verbatim>\<open>urlparse(url, scheme)\<close>: scheme, network location, path, parameters, query,
  fragment.\<close>

definition urlparse ::
  "netloc_checks \<Rightarrow> string \<Rightarrow> string \<Rightarrow>
     pyerr + (string \<times> string \<times> string \<times> string \<times> string \<times> string)" where
  "urlparse ck url0 scheme0 =
     (case urlsplit ck url0 scheme0 of
        Inl e \<Rightarrow> Inl e
      | Inr (scheme, netloc, url, query, fragment) \<Rightarrow>
          if scheme \<in> set uses_params \<and> CHR '';'' \<in> set url
          then (case splitparams url of
                  (url', params) \<Rightarrow> Inr (scheme, netloc, url', params, query, fragment))
          else Inr (scheme, netloc, url, '''', query, fragment))"

definition urlunsplit :: "string \<Rightarrow> string \<Rightarrow> string \<Rightarrow> string \<Rightarrow> string \<Rightarrow> string" where
  "urlunsplit scheme netloc url0 query fragment =
     (let url1 =
            (if netloc \<noteq> [] \<or> (scheme \<noteq> [] \<and> scheme \<in> set uses_netloc) \<or> take 2 url0 = ''//''
             then ''//'' @ netloc
                    @ (if url0 \<noteq> [] \<and> take 1 url0 \<noteq> ''/'' then ''/'' @ url0 else url0)
             else url0);
          url2 = (if scheme \<noteq> [] then scheme @ '':'' @ url1 else url1);
          url3 = (if query \<noteq> [] then url2 @ ''?'' @ query else url2)
      in if fragment \<noteq> [] then url3 @ ''#'' @ fragment else url3)"

definition urlunparse ::
  "string \<Rightarrow> string \<Rightarrow> string \<Rightarrow> string \<Rightarrow> string \<Rightarrow> string \<Rightarrow> string" where
  "urlunparse scheme netloc url params query fragment =
     urlunsplit scheme netloc (if params \<noteq> [] then url @ '';'' @ params else url)
       query fragment"

text \<open>The assignment \<^verbatim>\<open>segments[1:-1] = filter(None, segments[1:-1])\<close>: the empty
  segments go, but for the first and the last segment.\<close>

fun filter_middle :: "string list \<Rightarrow> string list" where
  "filter_middle [] = []"
| "filter_middle [a] = [a]"
| "filter_middle (a # b # bs) =
     a # filter (\<lambda>s. s \<noteq> []) (butlast (b # bs)) @ [last (b # bs)]"

text \<open>One turn of the loop over the segments: \<^verbatim>\<open>..\<close> pops the last resolved segment
  (nothing happens when there is none), \<^verbatim>\<open>.\<close> is skipped.\<close>

definition resolve_segment :: "string \<Rightarrow> string list \<Rightarrow> string list" where
  "resolve_segment seg resolved_path =
     (if seg = ''..'' then butlast resolved_path
      else if seg = ''.'' then resolved_path
      else resolved_path @ [seg])"

definition urljoin :: "netloc_checks \<Rightarrow> string \<Rightarrow> string \<Rightarrow> pyerr + string" where
  "urljoin ck base url =
     (if base = [] then Inr url
      else if url = [] then Inr base
      else
        (case urlparse ck base '''' of
           Inl e \<Rightarrow> Inl e
         | Inr (bscheme, bnetloc, bpath, bparams, bquery, bfragment) \<Rightarrow>
             (case urlparse ck url bscheme of
                Inl e \<Rightarrow> Inl e
              | Inr (scheme, netloc0, path, params, query, fragment) \<Rightarrow>
                  if scheme \<noteq> bscheme \<or> scheme \<notin> set uses_relative then Inr url
                  else if scheme \<in> set uses_netloc \<and> netloc0 \<noteq> []
                  then Inr (urlunparse scheme netloc0 path params query fragment)
                  else
                    (let netloc = (if scheme \<in> set uses_netloc then bnetloc else netloc0)
                     in if path = [] \<and> params = []
                        then Inr (urlunparse scheme netloc bpath bparams
                                    (if query = [] then bquery else query) fragment)
                        else
                          (let base_parts0 = split_on CHR ''/'' bpath;
                               base_parts =
                                 (if last base_parts0 \<noteq> [] then butlast base_parts0
                                  else base_parts0);
                               segments =
                                 (if take 1 path = ''/'' then split_on CHR ''/'' path
                                  else filter_middle (base_parts @ split_on CHR ''/'' path));
                               resolved_path0 = fold resolve_segment segments [];
                               resolved_path =
                                 (if last segments = ''.'' \<or> last segments = ''..''
                                  then resolved_path0 @ [[]] else resolved_path0);
                               joined = join ''/'' resolved_path
                           in Inr (urlunparse scheme netloc
                                     (if joined = [] then ''/'' else joined)
                                     params query fragment))))))"

section \<open>The requestor\<close>

text \<open>The module constants \<^verbatim>\<open>api_compat\<close>, \<^verbatim>\<open>api_main\<close> and \<^verbatim>\<open>api_vault\<close>.\<close>

definition api_compat :: string where
  "api_compat = ''2014-07-27''"

definition api_main :: string where
  "api_main = ''https://api.omise.co''"

definition api_vault :: string where
  "api_vault = ''https://vault.omise.co''"

text \<open>The four HTTP verbs the library names: \<^verbatim>\<open>'get'\<close>, \<^verbatim>\<open>'post'\<close>,
  \<^verbatim>\<open>'patch'\<close> and \<^verbatim>\<open>'delete'\<close>, each a function of the \<^verbatim>\<open>requests\<close> module.\<close>

datatype verb = GET | POST | PATCH | DELETE

text \<open>One invocation of the transport: the arguments \<^verbatim>\<open>send\<close> hands to
  \<^verbatim>\<open>requests\<close>. \<open>call_auth\<close> is the user name of the pair
  \<^verbatim>\<open>(self.api_key, None)\<close>; \<open>call_verify\<close> is the bundled certificate file, relative
  to the directory of the module.\<close>

record http_call =
  call_verb :: verb
  call_url :: string
  call_data :: dict
  call_headers :: dict
  call_auth :: string
  call_verify :: string

text \<open>
  What surrounds the module. \<open>api_secret\<close> and \<open>api_public\<close> are the two module
  settings, \<^verbatim>\<open>None\<close> until the application sets them. \<open>lib_version\<close> is
  \<^verbatim>\<open>version.__VERSION__\<close>, a constant of a module that is not part of the sources
  at hand. \<open>http\<close> is the transport followed by the JSON decoder: from the calls made
  so far and the present call it gives the decoded body, or the exception raised.
  \<open>obj_repr\<close> is Python's rendering of a value that is not \<^verbatim>\<open>None\<close>, a boolean, an
  integer or a string, used when such a value stands as a path segment. \<open>url_checks\<close>
  are the two checks of the network location that \<^verbatim>\<open>urlsplit\<close> takes from the standard
  library.
\<close>

record env =
  api_secret :: "string option"
  api_public :: "string option"
  lib_version :: string
  http :: "http_call list \<Rightarrow> http_call \<Rightarrow> pyerr + pyval"
  obj_repr :: "obj \<Rightarrow> string"
  url_checks :: netloc_checks

text \<open>A requestor, once constructed.\<close>

record request =
  api_key :: string
  api_base :: string

text \<open>\<^verbatim>\<open>Request.__init__\<close>.\<close>

definition Request_init :: "string option \<Rightarrow> string \<Rightarrow> pyerr + request" where
  "Request_init key base =
     (case key of
        None \<Rightarrow> Inl (AttributeError ''API key is not set.'')
      | Some k \<Rightarrow> Inr \<lparr>api_key = k, api_base = base\<rparr>)"

text \<open>A path argument: one value (a string as a rule), or a tuple of segments. The
  segments of a tuple are objects, since \<^verbatim>\<open>Transfer\<close> builds its tuple from the
  attribute read \<^verbatim>\<open>self.id\<close>.\<close>

datatype path = Single pyval | Segments "obj list"

text \<open>\<^verbatim>\<open>str(x)\<close> for a path segment.\<close>

definition py_str :: "env \<Rightarrow> obj \<Rightarrow> string" where
  "py_str e x =
     (case x of
        ORaw PNone \<Rightarrow> ''None''
      | ORaw (PBool b) \<Rightarrow> (if b then ''True'' else ''False'')
      | ORaw (PInt i) \<Rightarrow> str_of_int i
      | ORaw (PStr s) \<Rightarrow> s
      | _ \<Rightarrow> obj_repr e x)"

text \<open>The first two lines of \<^verbatim>\<open>Request._build_path\<close>: a string or a value without
  \<^verbatim>\<open>__iter__\<close> becomes a one-element tuple; a list is iterated over its elements and
  a dict over its keys.\<close>

definition path_segments :: "path \<Rightarrow> obj list" where
  "path_segments p =
     (case p of
        Segments segs \<Rightarrow> segs
      | Single (PList xs) \<Rightarrow> map ORaw xs
      | Single (PDict d) \<Rightarrow> map (\<lambda>(k, v). ORaw (PStr k)) d
      | Single v \<Rightarrow> [ORaw v])"

text \<open>\<^verbatim>\<open>Request._build_path\<close>.\<close>

definition build_path :: "env \<Rightarrow> request \<Rightarrow> path \<Rightarrow> pyerr + string" where
  "build_path e self p =
     urljoin (url_checks e) (api_base self) (join ''/'' (map (py_str e) (path_segments p)))"

text \<open>\<^verbatim>\<open>Request._build_payload\<close>.\<close>

definition build_payload :: "dict option \<Rightarrow> dict" where
  "build_payload payload = (case payload of None \<Rightarrow> [] | Some p \<Rightarrow> p)"

text \<open>\<^verbatim>\<open>Request._build_headers\<close>: the two entries are stored into the caller's dict (a
  fresh one when there is none), which is returned.\<close>

definition build_headers :: "env \<Rightarrow> dict option \<Rightarrow> dict" where
  "build_headers e hdrs =
     AList.update ''User-Agent''
       (PStr (''OmisePython/'' @ lib_version e @ '' OmiseAPI/'' @ api_compat))
       (AList.update ''Accept'' (PStr ''application/json'')
          (case hdrs of None \<Rightarrow> [] | Some h \<Rightarrow> h))"

text \<open>Modelled from the spec: \<^verbatim>\<open>errors._raise_from_data\<close>, the error translator, whose
  module is not part of the sources at hand. It reads the \<^verbatim>\<open>code\<close> and the
  \<^verbatim>\<open>message\<close> of the body and always raises; the error raised exposes both. The
  value below is the exception raised.\<close>

definition raise_from_data :: "dict \<Rightarrow> pyerr" where
  "raise_from_data body = OmiseError (map_of body ''code'') (map_of body ''message'')"

text \<open>The arguments with which \<^verbatim>\<open>Request.send\<close> calls the function of
  \<^verbatim>\<open>requests\<close>, for the URL that \<^verbatim>\<open>_build_path\<close> gave.\<close>

definition transport_call ::
  "env \<Rightarrow> request \<Rightarrow> verb \<Rightarrow> string \<Rightarrow> dict option \<Rightarrow> dict option \<Rightarrow> http_call" where
  "transport_call e self method request_path payload hdrs =
     \<lparr>call_verb = method,
      call_url = request_path,
      call_data = build_payload payload,
      call_headers = build_headers e hdrs,
      call_auth = api_key self,
      call_verify = ''data/ca_certificates.pem''\<rparr>"

text \<open>\<^verbatim>\<open>Request.send\<close>, on the list of the transport invocations made so far, which it
  returns extended by its own. The log records it emits are left out. A decoded body
  that is not a dict has no \<^verbatim>\<open>get\<close>.\<close>

definition send ::
  "env \<Rightarrow> request \<Rightarrow> verb \<Rightarrow> path \<Rightarrow> dict option \<Rightarrow> dict option \<Rightarrow> http_call list
     \<Rightarrow> (pyerr + dict) \<times> http_call list" where
  "send e self method p payload hdrs w =
     (case build_path e self p of
        Inl err \<Rightarrow> (Inl err, w)
      | Inr request_path \<Rightarrow>
          (let call = transport_call e self method request_path payload hdrs
           in case http e w call of
                Inl err \<Rightarrow> (Inl err, w @ [call])
              | Inr (PDict response) \<Rightarrow>
                  if map_of response ''object'' = Some (PStr ''error'')
                  then (Inl (raise_from_data response), w @ [call])
                  else (Inr response, w @ [call])
              | Inr v \<Rightarrow> (Inl (AttributeError ''get''), w @ [call])))"

text \<open>\<^verbatim>\<open>_MainResource._request\<close> and \<^verbatim>\<open>_VaultResource._request\<close>: the requestor is built
  first, then \<^verbatim>\<open>send\<close> gets the arguments as they come; no resource passes headers.\<close>

definition MainResource_request ::
  "env \<Rightarrow> verb \<Rightarrow> path \<Rightarrow> dict option \<Rightarrow> http_call list \<Rightarrow> (pyerr + dict) \<times> http_call list" where
  "MainResource_request e method p payload w =
     (case Request_init (api_secret e) api_main of
        Inl err \<Rightarrow> (Inl err, w)
      | Inr r \<Rightarrow> send e r method p payload None w)"

definition VaultResource_request ::
  "env \<Rightarrow> verb \<Rightarrow> path \<Rightarrow> dict option \<Rightarrow> http_call list \<Rightarrow> (pyerr + dict) \<times> http_call list" where
  "VaultResource_request e method p payload w =
     (case Request_init (api_public e) api_vault of
        Inl err \<Rightarrow> (Inl err, w)
      | Inr r \<Rightarrow> send e r method p payload None w)"

section \<open>Resource bindings\<close>

text \<open>The two shapes every binding has: \<^verbatim>\<open>_as_object(cls._request(...))\<close> and
  \<^verbatim>\<open>self._reload_data(self._request(...))\<close>. An exception of the request leaves
  before the outer call is made.\<close>

definition as_object_of ::
  "(pyerr + dict) \<times> http_call list \<Rightarrow> (pyerr + obj) \<times> http_call list" where
  "as_object_of r =
     (case r of (Inl err, w) \<Rightarrow> (Inl err, w) | (Inr d, w) \<Rightarrow> (as_object (PDict d), w))"

definition reload_data_of ::
  "inst \<Rightarrow> (pyerr + dict) \<times> http_call list \<Rightarrow> (pyerr + inst) \<times> http_call list" where
  "reload_data_of self r =
     (case r of
        (Inl err, w) \<Rightarrow> (Inl err, w)
      | (Inr d, w) \<Rightarrow> (Inr (Base_reload_data d self), w))"

text \<open>\<^verbatim>\<open>changed = copy.deepcopy(self.changes); changed.update(kwargs)\<close>: the entries of
  \<^verbatim>\<open>kwargs\<close> are stored one after the other into the copy.\<close>

definition changed_with :: "inst \<Rightarrow> dict \<Rightarrow> dict" where
  "changed_with self kwargs = fold (\<lambda>(k, v) a. AList.update k v a) kwargs (changes self)"

text \<open>The truth value of \<^verbatim>\<open>if x:\<close>.\<close>

fun py_truthy :: "pyval \<Rightarrow> bool" where
  "py_truthy PNone = False"
| "py_truthy (PBool b) = b"
| "py_truthy (PInt i) = (i \<noteq> 0)"
| "py_truthy (PStr s) = (s \<noteq> [])"
| "py_truthy (PList xs) = (xs \<noteq> [])"
| "py_truthy (PDict d) = (d \<noteq> [])"

text \<open>The property \<^verbatim>\<open>destroyed\<close> of \<^verbatim>\<open>Card\<close>, \<^verbatim>\<open>Customer\<close> and \<^verbatim>\<open>Transfer\<close>.\<close>

definition destroyed :: "inst \<Rightarrow> pyval" where
  "destroyed self =
     (case map_of (attributes self) ''deleted'' of None \<Rightarrow> PBool False | Some v \<Rightarrow> v)"

subsection \<open>Account and Balance\<close>

definition Account_instance_path :: path where
  "Account_instance_path = Single (PStr ''account'')"

definition Account_retrieve :: "env \<Rightarrow> http_call list \<Rightarrow> (pyerr + obj) \<times> http_call list" where
  "Account_retrieve e w = as_object_of (MainResource_request e GET Account_instance_path None w)"

definition Account_reload ::
  "env \<Rightarrow> inst \<Rightarrow> http_call list \<Rightarrow> (pyerr + inst) \<times> http_call list" where
  "Account_reload e self w =
     reload_data_of self (MainResource_request e GET Account_instance_path None w)"

definition Balance_instance_path :: path where
  "Balance_instance_path = Single (PStr ''balance'')"

definition Balance_retrieve :: "env \<Rightarrow> http_call list \<Rightarrow> (pyerr + obj) \<times> http_call list" where
  "Balance_retrieve e w = as_object_of (MainResource_request e GET Balance_instance_path None w)"

definition Balance_reload ::
  "env \<Rightarrow> inst \<Rightarrow> http_call list \<Rightarrow> (pyerr + inst) \<times> http_call list" where
  "Balance_reload e self w =
     reload_data_of self (MainResource_request e GET Balance_instance_path None w)"

subsection \<open>Token\<close>

definition Token_collection_path :: path where
  "Token_collection_path = Single (PStr ''tokens'')"

definition Token_instance_path :: "obj \<Rightarrow> path" where
  "Token_instance_path token_id = Segments [ORaw (PStr ''tokens''), token_id]"

definition Token_create ::
  "env \<Rightarrow> dict \<Rightarrow> http_call list \<Rightarrow> (pyerr + obj) \<times> http_call list" where
  "Token_create e kwargs w =
     (let transformed_args =
            fold (\<lambda>(key, val) a. AList.update (''card['' @ key @ '']'') val a) kwargs []
      in as_object_of
           (VaultResource_request e POST Token_collection_path (Some transformed_args) w))"

definition Token_retrieve ::
  "env \<Rightarrow> pyval \<Rightarrow> http_call list \<Rightarrow> (pyerr + obj) \<times> http_call list" where
  "Token_retrieve e token_id w =
     as_object_of (VaultResource_request e GET (Token_instance_path (ORaw token_id)) None w)"

definition Token_reload ::
  "env \<Rightarrow> inst \<Rightarrow> http_call list \<Rightarrow> (pyerr + inst) \<times> http_call list" where
  "Token_reload e self w =
     (case attr_item self ''id'' of
        Inl err \<Rightarrow> (Inl err, w)
      | Inr i \<Rightarrow>
          reload_data_of self
            (VaultResource_request e GET (Token_instance_path (ORaw i)) None w))"

subsection \<open>Card and Refund\<close>

definition Card_reload ::
  "env \<Rightarrow> inst \<Rightarrow> http_call list \<Rightarrow> (pyerr + inst) \<times> http_call list" where
  "Card_reload e self w =
     (case attr_item self ''location'' of
        Inl err \<Rightarrow> (Inl err, w)
      | Inr loc \<Rightarrow> reload_data_of self (MainResource_request e GET (Single loc) None w))"

definition Card_update ::
  "env \<Rightarrow> inst \<Rightarrow> dict \<Rightarrow> http_call list \<Rightarrow> (pyerr + inst) \<times> http_call list" where
  "Card_update e self kwargs w =
     (let changed = changed_with self kwargs
      in case attr_item self ''location'' of
           Inl err \<Rightarrow> (Inl err, w)
         | Inr loc \<Rightarrow>
             reload_data_of self (MainResource_request e PATCH (Single loc) (Some changed) w))"

definition Card_destroy ::
  "env \<Rightarrow> inst \<Rightarrow> http_call list \<Rightarrow> (pyerr + inst) \<times> http_call list" where
  "Card_destroy e self w =
     (case attr_item self ''location'' of
        Inl err \<Rightarrow> (Inl err, w)
      | Inr loc \<Rightarrow> reload_data_of self (MainResource_request e DELETE (Single loc) None w))"

definition Refund_reload ::
  "env \<Rightarrow> inst \<Rightarrow> http_call list \<Rightarrow> (pyerr + inst) \<times> http_call list" where
  "Refund_reload e self w =
     (case attr_item self ''location'' of
        Inl err \<Rightarrow> (Inl err, w)
      | Inr loc \<Rightarrow> reload_data_of self (MainResource_request e GET (Single loc) None w))"

subsection \<open>Charge\<close>

definition Charge_collection_path :: path where
  "Charge_collection_path = Single (PStr ''charges'')"

definition Charge_instance_path :: "obj \<Rightarrow> path" where
  "Charge_instance_path charge_id = Segments [ORaw (PStr ''charges''), charge_id]"

definition Charge_create ::
  "env \<Rightarrow> dict \<Rightarrow> http_call list \<Rightarrow> (pyerr + obj) \<times> http_call list" where
  "Charge_create e kwargs w =
     as_object_of (MainResource_request e POST Charge_collection_path (Some kwargs) w)"

definition Charge_retrieve ::
  "env \<Rightarrow> pyval \<Rightarrow> http_call list \<Rightarrow> (pyerr + obj) \<times> http_call list" where
  "Charge_retrieve e charge_id w =
     (if py_truthy charge_id
      then as_object_of
             (MainResource_request e GET (Charge_instance_path (ORaw charge_id)) None w)
      else as_object_of (MainResource_request e GET Charge_collection_path None w))"

definition Charge_reload ::
  "env \<Rightarrow> inst \<Rightarrow> http_call list \<Rightarrow> (pyerr + inst) \<times> http_call list" where
  "Charge_reload e self w =
     (case attr_item self ''id'' of
        Inl err \<Rightarrow> (Inl err, w)
      | Inr i \<Rightarrow>
          reload_data_of self
            (MainResource_request e GET (Charge_instance_path (ORaw i)) None w))"

definition Charge_update ::
  "env \<Rightarrow> inst \<Rightarrow> dict \<Rightarrow> http_call list \<Rightarrow> (pyerr + inst) \<times> http_call list" where
  "Charge_update e self kwargs w =
     (let changed = changed_with self kwargs
      in case attr_item self ''id'' of
           Inl err \<Rightarrow> (Inl err, w)
         | Inr i \<Rightarrow>
             reload_data_of self
               (MainResource_request e PATCH (Charge_instance_path (ORaw i)) (Some changed) w))"

definition Charge_capture ::
  "env \<Rightarrow> inst \<Rightarrow> http_call list \<Rightarrow> (pyerr + inst) \<times> http_call list" where
  "Charge_capture e self w =
     (case attr_item self ''id'' of
        Inl err \<Rightarrow> (Inl err, w)
      | Inr i \<Rightarrow>
          reload_data_of self
            (MainResource_request e POST
               (Segments [ORaw (PStr ''charges''), ORaw i, ORaw (PStr ''capture'')]) None w))"

text \<open>\<^verbatim>\<open>Charge.refund\<close> returns the refund and reloads the charge: the result is the
  refund and the charge after the reload.\<close>

definition Charge_refund ::
  "env \<Rightarrow> inst \<Rightarrow> dict \<Rightarrow> http_call list \<Rightarrow> (pyerr + obj \<times> inst) \<times> http_call list" where
  "Charge_refund e self kwargs w =
     (case attr_item self ''id'' of
        Inl err \<Rightarrow> (Inl err, w)
      | Inr i \<Rightarrow>
          (case as_object_of
                  (MainResource_request e POST
                     (Segments [ORaw (PStr ''charges''), ORaw i, ORaw (PStr ''refunds'')])
                     (Some kwargs) w) of
             (Inl err, w1) \<Rightarrow> (Inl err, w1)
           | (Inr refund, w1) \<Rightarrow>
               (case Charge_reload e self w1 of
                  (Inl err, w2) \<Rightarrow> (Inl err, w2)
                | (Inr self', w2) \<Rightarrow> (Inr (refund, self'), w2))))"

subsection \<open>Customer\<close>

definition Customer_collection_path :: path where
  "Customer_collection_path = Single (PStr ''customers'')"

definition Customer_instance_path :: "obj \<Rightarrow> path" where
  "Customer_instance_path customer_id = Segments [ORaw (PStr ''customers''), customer_id]"

definition Customer_create ::
  "env \<Rightarrow> dict \<Rightarrow> http_call list \<Rightarrow> (pyerr + obj) \<times> http_call list" where
  "Customer_create e kwargs w =
     as_object_of (MainResource_request e POST Customer_collection_path (Some kwargs) w)"

definition Customer_retrieve ::
  "env \<Rightarrow> pyval \<Rightarrow> http_call list \<Rightarrow> (pyerr + obj) \<times> http_call list" where
  "Customer_retrieve e customer_id w =
     as_object_of
       (MainResource_request e GET (Customer_instance_path (ORaw customer_id)) None w)"

definition Customer_reload ::
  "env \<Rightarrow> inst \<Rightarrow> http_call list \<Rightarrow> (pyerr + inst) \<times> http_call list" where
  "Customer_reload e self w =
     (case attr_item self ''id'' of
        Inl err \<Rightarrow> (Inl err, w)
      | Inr i \<Rightarrow>
          reload_data_of self
            (MainResource_request e GET (Customer_instance_path (ORaw i)) None w))"

definition Customer_update ::
  "env \<Rightarrow> inst \<Rightarrow> dict \<Rightarrow> http_call list \<Rightarrow> (pyerr + inst) \<times> http_call list" where
  "Customer_update e self kwargs w =
     (let changed = changed_with self kwargs
      in case attr_item self ''id'' of
           Inl err \<Rightarrow> (Inl err, w)
         | Inr i \<Rightarrow>
             reload_data_of self
               (MainResource_request e PATCH (Customer_instance_path (ORaw i))
                  (Some changed) w))"

definition Customer_destroy ::
  "env \<Rightarrow> inst \<Rightarrow> http_call list \<Rightarrow> (pyerr + inst) \<times> http_call list" where
  "Customer_destroy e self w =
     (case attr_item self ''id'' of
        Inl err \<Rightarrow> (Inl err, w)
      | Inr i \<Rightarrow>
          reload_data_of self
            (MainResource_request e DELETE (Customer_instance_path (ORaw i)) None w))"

subsection \<open>Transfer\<close>

definition Transfer_collection_path :: path where
  "Transfer_collection_path = Single (PStr ''transfers'')"

definition Transfer_instance_path :: "obj \<Rightarrow> path" where
  "Transfer_instance_path transfer_id = Segments [ORaw (PStr ''transfers''), transfer_id]"

definition Transfer_create ::
  "env \<Rightarrow> dict \<Rightarrow> http_call list \<Rightarrow> (pyerr + obj) \<times> http_call list" where
  "Transfer_create e kwargs w =
     as_object_of (MainResource_request e POST Transfer_collection_path (Some kwargs) w)"

definition Transfer_retrieve ::
  "env \<Rightarrow> pyval \<Rightarrow> http_call list \<Rightarrow> (pyerr + obj) \<times> http_call list" where
  "Transfer_retrieve e transfer_id w =
     (if py_truthy transfer_id
      then as_object_of
             (MainResource_request e GET (Transfer_instance_path (ORaw transfer_id)) None w)
      else as_object_of (MainResource_request e GET Transfer_collection_path None w))"

definition Transfer_reload ::
  "env \<Rightarrow> inst \<Rightarrow> http_call list \<Rightarrow> (pyerr + inst) \<times> http_call list" where
  "Transfer_reload e self w =
     (case attr_item self ''id'' of
        Inl err \<Rightarrow> (Inl err, w)
      | Inr i \<Rightarrow>
          reload_data_of self
            (MainResource_request e GET (Transfer_instance_path (ORaw i)) None w))"

text \<open>\<^verbatim>\<open>Transfer.update\<close> and \<^verbatim>\<open>Transfer.destroy\<close> read the identifier as the
  attribute \<^verbatim>\<open>self.id\<close>, through \<^verbatim>\<open>__getattr__\<close>.\<close>

definition Transfer_update ::
  "env \<Rightarrow> inst \<Rightarrow> dict \<Rightarrow> http_call list \<Rightarrow> (pyerr + inst) \<times> http_call list" where
  "Transfer_update e self kwargs w =
     (let changed = changed_with self kwargs
      in case Base_getattr ''id'' self of
           Inl err \<Rightarrow> (Inl err, w)
         | Inr i \<Rightarrow>
             reload_data_of self
               (MainResource_request e PATCH (Transfer_instance_path i) (Some changed) w))"

definition Transfer_destroy ::
  "env \<Rightarrow> inst \<Rightarrow> http_call list \<Rightarrow> (pyerr + inst) \<times> http_call list" where
  "Transfer_destroy e self w =
     (case Base_getattr ''id'' self of
        Inl err \<Rightarrow> (Inl err, w)
      | Inr i \<Rightarrow>
          reload_data_of self
            (MainResource_request e DELETE (Transfer_instance_path i) None w))"

subsection \<open>Transaction\<close>

definition Transaction_collection_path :: path where
  "Transaction_collection_path = Single (PStr ''transactions'')"

definition Transaction_instance_path :: "obj \<Rightarrow> path" where
  "Transaction_instance_path transaction_id =
     Segments [ORaw (PStr ''transactions''), transaction_id]"

definition Transaction_retrieve ::
  "env \<Rightarrow> pyval \<Rightarrow> http_call list \<Rightarrow> (pyerr + obj) \<times> http_call list" where
  "Transaction_retrieve e transaction_id w =
     (if py_truthy transaction_id
      then as_object_of
             (MainResource_request e GET
                (Transaction_instance_path (ORaw transaction_id)) None w)
      else as_object_of (MainResource_request e GET Transaction_collection_path None w))"

definition Transaction_reload ::
  "env \<Rightarrow> inst \<Rightarrow> http_call list \<Rightarrow> (pyerr + inst) \<times> http_call list" where
  "Transaction_reload e self w =
     (case attr_item self ''id'' of
        Inl err \<Rightarrow> (Inl err, w)
      | Inr i \<Rightarrow>
          reload_data_of self
            (MainResource_request e GET (Transaction_instance_path (ORaw i)) None w))"

subsection \<open>The operations as one type\<close>

text \<open>Every method of the module that sends a request, with its arguments, and what it
  gives back: a materialized object, the instance after \<^verbatim>\<open>_reload_data\<close>, or both
  (\<^verbatim>\<open>Charge.refund\<close>).\<close>

datatype operation =
    AccountRetrieve | AccountReload inst
  | BalanceRetrieve | BalanceReload inst
  | TokenCreate dict | TokenRetrieve pyval | TokenReload inst
  | CardReload inst | CardUpdate inst dict | CardDestroy inst
  | RefundReload inst
  | ChargeCreate dict | ChargeRetrieve pyval | ChargeReload inst | ChargeUpdate inst dict
  | ChargeCapture inst | ChargeRefund inst dict
  | CustomerCreate dict | CustomerRetrieve pyval | CustomerReload inst
  | CustomerUpdate inst dict | CustomerDestroy inst
  | TransferCreate dict | TransferRetrieve pyval | TransferReload inst
  | TransferUpdate inst dict | TransferDestroy inst
  | TransactionRetrieve pyval | TransactionReload inst

datatype outcome = Returned obj | Reloaded inst | Refunded obj inst

definition giving ::
  "('a \<Rightarrow> outcome) \<Rightarrow> (pyerr + 'a) \<times> http_call list \<Rightarrow> (pyerr + outcome) \<times> http_call list" where
  "giving f r = (case r of (Inl err, w) \<Rightarrow> (Inl err, w) | (Inr x, w) \<Rightarrow> (Inr (f x), w))"

fun perform :: "env \<Rightarrow> operation \<Rightarrow> http_call list \<Rightarrow> (pyerr + outcome) \<times> http_call list" where
  "perform e AccountRetrieve w = giving Returned (Account_retrieve e w)"
| "perform e (AccountReload self) w = giving Reloaded (Account_reload e self w)"
| "perform e BalanceRetrieve w = giving Returned (Balance_retrieve e w)"
| "perform e (BalanceReload self) w = giving Reloaded (Balance_reload e self w)"
| "perform e (TokenCreate kwargs) w = giving Returned (Token_create e kwargs w)"
| "perform e (TokenRetrieve i) w = giving Returned (Token_retrieve e i w)"
| "perform e (TokenReload self) w = giving Reloaded (Token_reload e self w)"
| "perform e (CardReload self) w = giving Reloaded (Card_reload e self w)"
| "perform e (CardUpdate self kwargs) w = giving Reloaded (Card_update e self kwargs w)"
| "perform e (CardDestroy self) w = giving Reloaded (Card_destroy e self w)"
| "perform e (RefundReload self) w = giving Reloaded (Refund_reload e self w)"
| "perform e (ChargeCreate kwargs) w = giving Returned (Charge_create e kwargs w)"
| "perform e (ChargeRetrieve i) w = giving Returned (Charge_retrieve e i w)"
| "perform e (ChargeReload self) w = giving Reloaded (Charge_reload e self w)"
| "perform e (ChargeUpdate self kwargs) w = giving Reloaded (Charge_update e self kwargs w)"
| "perform e (ChargeCapture self) w = giving Reloaded (Charge_capture e self w)"
| "perform e (ChargeRefund self kwargs) w =
     giving (\<lambda>(refund, self'). Refunded refund self') (Charge_refund e self kwargs w)"
| "perform e (CustomerCreate kwargs) w = giving Returned (Customer_create e kwargs w)"
| "perform e (CustomerRetrieve i) w = giving Returned (Customer_retrieve e i w)"
| "perform e (CustomerReload self) w = giving Reloaded (Customer_reload e self w)"
| "perform e (CustomerUpdate self kwargs) w =
     giving Reloaded (Customer_update e self kwargs w)"
| "perform e (CustomerDestroy self) w = giving Reloaded (Customer_destroy e self w)"
| "perform e (TransferCreate kwargs) w = giving Returned (Transfer_create e kwargs w)"
| "perform e (TransferRetrieve i) w = giving Returned (Transfer_retrieve e i w)"
| "perform e (TransferReload self) w = giving Reloaded (Transfer_reload e self w)"
| "perform e (TransferUpdate self kwargs) w =
     giving Reloaded (Transfer_update e self kwargs w)"
| "perform e (TransferDestroy self) w = giving Reloaded (Transfer_destroy e self w)"
| "perform e (TransactionRetrieve i) w = giving Returned (Transaction_retrieve e i w)"
| "perform e (TransactionReload self) w = giving Reloaded (Transaction_reload e self w)"

text \<open>The credential an operation requires: the public key for the vault operations (the
  methods of \<^verbatim>\<open>Token\<close>, a \<^verbatim>\<open>_VaultResource\<close>), the secret key for all others.\<close>

fun credential :: "env \<Rightarrow> operation \<Rightarrow> string option" where
  "credential e (TokenCreate kwargs) = api_public e"
| "credential e (TokenRetrieve i) = api_public e"
| "credential e (TokenReload self) = api_public e"
| "credential e x = api_secret e"

text \<open>Whether the record of an operation holds the field its path is built from: the
  subscription \<^verbatim>\<open>self._attributes['id']\<close> or \<^verbatim>\<open>self._attributes['location']\<close>, or the
  attribute read \<^verbatim>\<open>self.id\<close>, is evaluated before the request is made. The class
  methods read no field.\<close>

definition has_item :: "inst \<Rightarrow> string \<Rightarrow> bool" where
  "has_item self k = (case attr_item self k of Inl err \<Rightarrow> False | Inr v \<Rightarrow> True)"

definition has_attr :: "inst \<Rightarrow> string \<Rightarrow> bool" where
  "has_attr self k = (case Base_getattr k self of Inl err \<Rightarrow> False | Inr v \<Rightarrow> True)"

fun path_readable :: "operation \<Rightarrow> bool" where
  "path_readable (TokenReload self) = has_item self ''id''"
| "path_readable (CardReload self) = has_item self ''location''"
| "path_readable (CardUpdate self kwargs) = has_item self ''location''"
| "path_readable (CardDestroy self) = has_item self ''location''"
| "path_readable (RefundReload self) = has_item self ''location''"
| "path_readable (ChargeReload self) = has_item self ''id''"
| "path_readable (ChargeUpdate self kwargs) = has_item self ''id''"
| "path_readable (ChargeCapture self) = has_item self ''id''"
| "path_readable (ChargeRefund self kwargs) = has_item self ''id''"
| "path_readable (CustomerReload self) = has_item self ''id''"
| "path_readable (CustomerUpdate self kwargs) = has_item self ''id''"
| "path_readable (CustomerDestroy self) = has_item self ''id''"
| "path_readable (TransferReload self) = has_item self ''id''"
| "path_readable (TransferUpdate self kwargs) = has_attr self ''id''"
| "path_readable (TransferDestroy self) = has_attr self ''id''"
| "path_readable (TransactionReload self) = has_item self ''id''"
| "path_readable x = True"

section \<open>Reading an attribute\<close>

text \<open>
  The expression \<^verbatim>\<open>rec.name\<close> for a name that does not start with an underscore.
  Python looks the name up in the classes of the record first and calls
  \<^verbatim>\<open>__getattr__\<close> only when no class has it; the dictionary of the instance holds
  underscore names only, since \<^verbatim>\<open>__setattr__\<close> sends every other name to the
  internal mapping. The table lists, class by class, the names without a leading
  underscore that the class body binds: the methods, the class methods and the two
  properties. \<^verbatim>\<open>_MainResource\<close> and \<^verbatim>\<open>_VaultResource\<close> bind \<^verbatim>\<open>_request\<close> only, and
  \<^verbatim>\<open>object\<close> binds no name without a leading underscore.
\<close>

datatype member = InstanceMethod | ClassMethod | ChangesProperty | DestroyedProperty

definition own_members :: "cls \<Rightarrow> (string \<times> member) list" where
  "own_members c =
     (case c of
        Base \<Rightarrow> [(''from_data'', ClassMethod), (''changes'', ChangesProperty)]
      | Account \<Rightarrow> [(''retrieve'', ClassMethod), (''reload'', InstanceMethod)]
      | Balance \<Rightarrow> [(''retrieve'', ClassMethod), (''reload'', InstanceMethod)]
      | Token \<Rightarrow>
          [(''create'', ClassMethod), (''retrieve'', ClassMethod), (''reload'', InstanceMethod)]
      | Card \<Rightarrow>
          [(''reload'', InstanceMethod), (''update'', InstanceMethod),
           (''destroy'', InstanceMethod), (''destroyed'', DestroyedProperty)]
      | Charge \<Rightarrow>
          [(''create'', ClassMethod), (''retrieve'', ClassMethod), (''reload'', InstanceMethod),
           (''update'', InstanceMethod), (''capture'', InstanceMethod),
           (''refund'', InstanceMethod)]
      | Collection \<Rightarrow> [(''retrieve'', InstanceMethod)]
      | Customer \<Rightarrow>
          [(''create'', ClassMethod), (''retrieve'', ClassMethod), (''reload'', InstanceMethod),
           (''update'', InstanceMethod), (''destroy'', InstanceMethod),
           (''destroyed'', DestroyedProperty)]
      | Refund \<Rightarrow> [(''reload'', InstanceMethod)]
      | Transfer \<Rightarrow>
          [(''create'', ClassMethod), (''retrieve'', ClassMethod), (''reload'', InstanceMethod),
           (''update'', InstanceMethod), (''destroy'', InstanceMethod),
           (''destroyed'', DestroyedProperty)]
      | Transaction \<Rightarrow> [(''retrieve'', ClassMethod), (''reload'', InstanceMethod)])"

text \<open>The method resolution order: the class itself, then \<^verbatim>\<open>Base\<close>.\<close>

definition class_members :: "cls \<Rightarrow> (string \<times> member) list" where
  "class_members c = own_members c @ own_members Base"

text \<open>What a read gives: a value, or a method bound to the record (to its class, for a
  class method), known by its name.\<close>

datatype attr = Value obj | BoundMethod string

text \<open>The read \<^verbatim>\<open>rec.key\<close> for a key without a leading underscore (a key with one is
  looked up in the dictionary of the instance and among the private members as well,
  which are not listed here). A property is computed from the record; a method is
  bound; any other name goes to \<^verbatim>\<open>__getattr__\<close>.\<close>

definition getattribute :: "string \<Rightarrow> inst \<Rightarrow> pyerr + attr" where
  "getattribute key self =
     (case map_of (class_members (cls_of self)) key of
        Some ChangesProperty \<Rightarrow> Inr (Value (ORaw (PDict (changes self))))
      | Some DestroyedProperty \<Rightarrow> Inr (Value (ORaw (destroyed self)))
      | Some InstanceMethod \<Rightarrow> Inr (BoundMethod key)
      | Some ClassMethod \<Rightarrow> Inr (BoundMethod key)
      | None \<Rightarrow>
          (case Base_getattr key self of
             Inl err \<Rightarrow> Inl err
           | Inr ob \<Rightarrow> Inr (Value ob)))"

section \<open>Histories of a record\<close>

text \<open>What an application does to a record between two requests: it writes a field or
  a fresh mapping is loaded. A history is run from left to right and stops at the first
  exception.\<close>

datatype action = Write string pyval | Load dict

fun act :: "action \<Rightarrow> inst \<Rightarrow> pyerr + inst" where
  "act (Write key val) self = Base_setattr key val self"
| "act (Load d) self = Inr (Base_reload_data d self)"

fun run :: "action list \<Rightarrow> inst \<Rightarrow> pyerr + inst" where
  "run [] self = Inr self"
| "run (a # as) self = (case act a self of Inl err \<Rightarrow> Inl err | Inr self' \<Rightarrow> run as self')"

text \<open>The specification's account of the dirty fields, written from its words and not
  from the code: the names written since the last load, each with the value written
  last.\<close>

fun track :: "(string \<rightharpoonup> pyval) \<Rightarrow> action \<Rightarrow> (string \<rightharpoonup> pyval)" where
  "track m (Write key val) = m(key \<mapsto> val)"
| "track m (Load d) = Map.empty"

definition written_since_load :: "action list \<Rightarrow> (string \<rightharpoonup> pyval)" where
  "written_since_load as = foldl track Map.empty as"

text \<open>A field name: not empty, and not reserved by a leading underscore.\<close>

definition field_name :: "string \<Rightarrow> bool" where
  "field_name key = (case key of [] \<Rightarrow> False | c # cs \<Rightarrow> c \<noteq> CHR ''_'')"

fun writes_fields :: "action \<Rightarrow> bool" where
  "writes_fields (Write key val) = field_name key"
| "writes_fields (Load d) = True"

section \<open>Notions used in the statements\<close>

text \<open>An element of a collection that can be asked for its \<^verbatim>\<open>'id'\<close>, and one whose
  \<^verbatim>\<open>'id'\<close> is the given string.\<close>

definition has_id :: "pyval \<Rightarrow> bool" where
  "has_id x = (case py_getitem_str x ''id'' of Inl err \<Rightarrow> False | Inr v \<Rightarrow> True)"

definition id_is :: "string \<Rightarrow> pyval \<Rightarrow> bool" where
  "id_is oid x = (py_getitem_str x ''id'' = Inr (PStr oid))"

text \<open>A plain path segment: not empty, not a dot segment, free of the characters that
  delimit the parts of a URL, and free of the space and the control characters (codes 0
  to 32) that \<^verbatim>\<open>urlsplit\<close> strips or removes. A plain host: ASCII, free of those same
  control characters, of the characters that end the network location, and of
  brackets.\<close>

definition plain_segment :: "string \<Rightarrow> bool" where
  "plain_segment s \<longleftrightarrow>
     s \<noteq> [] \<and> s \<noteq> ''.'' \<and> s \<noteq> ''..''
     \<and> list_all (\<lambda>c. \<not> c0_control_or_space c \<and> c \<notin> set ''/:?#;'') s"

definition plain_host :: "string \<Rightarrow> bool" where
  "plain_host h \<longleftrightarrow>
     list_all (\<lambda>c. \<not> c0_control_or_space c \<and> is_ascii c \<and> c \<notin> set ''/?#[]'') h"

text \<open>A decoded body that is not an error payload, with each key once.\<close>

definition success_body :: "dict \<Rightarrow> bool" where
  "success_body body \<longleftrightarrow>
     map_of body ''object'' \<noteq> Some (PStr ''error'') \<and> distinct (map fst body)"

text \<open>The type tests \<^verbatim>\<open>isinstance(x, list)\<close> and \<^verbatim>\<open>isinstance(x, dict)\<close>.\<close>

fun is_list :: "pyval \<Rightarrow> bool" where
  "is_list (PList xs) = True"
| "is_list v = False"

fun is_dict :: "pyval \<Rightarrow> bool" where
  "is_dict (PDict d) = True"
| "is_dict v = False"

text \<open>The class the registry gives for a discriminator that can be hashed, with the
  generic class for a value that is not registered.\<close>

fun class_for :: "pyval \<Rightarrow> cls" where
  "class_for (PStr t) = (case map_of registry t of None \<Rightarrow> Base | Some c \<Rightarrow> c)"
| "class_for v = Base"

text \<open>The invariant of a history: the set of changes holds the names of \<open>m\<close>, and the
  mapping stores for each of them the value \<open>m\<close> gives.\<close>

definition tracks :: "inst \<Rightarrow> (string \<rightharpoonup> pyval) \<Rightarrow> bool" where
  "tracks self m \<longleftrightarrow>
     set (changeset self) = dom m \<and> (\<forall>k \<in> dom m. map_of (attributes self) k = m k)"

text \<open>The names that some class binds, of which a read never reaches the internal
  mapping.\<close>

definition member_names :: "string list" where
  "member_names =
     [''from_data'', ''changes'', ''create'', ''retrieve'', ''reload'', ''update'',
      ''destroy'', ''destroyed'', ''capture'', ''refund'']"

text \<open>The transport answers the PATCH of the URL \<open>u\<close> with the payload, made with the
  key \<open>key\<close> and the two headers of the library, by the body \<open>body\<close>, which is not an
  error payload; \<open>call\<close> is that invocation.\<close>

definition patched ::
  "env \<Rightarrow> string \<Rightarrow> http_call list \<Rightarrow> string \<Rightarrow> dict \<Rightarrow> http_call \<Rightarrow> dict \<Rightarrow> bool" where
  "patched e key w u payload call body \<longleftrightarrow>
     call = \<lparr>call_verb = PATCH, call_url = u, call_data = payload,
             call_headers =
               [(''Accept'', PStr ''application/json''),
                (''User-Agent'',
                 PStr (''OmisePython/'' @ lib_version e @ '' OmiseAPI/2014-07-27''))],
             call_auth = key, call_verify = ''data/ca_certificates.pem''\<rparr>
     \<and> http e w call = Inr (PDict body)
     \<and> success_body body"

section \<open>A concrete setting\<close>

text \<open>An application with the secret key set and the public key unset, in front of a
  server that knows the charge \<^verbatim>\<open>chrg_1\<close> and no charge \<^verbatim>\<open>chrg_0\<close>.\<close>

definition example_http :: "http_call list \<Rightarrow> http_call \<Rightarrow> pyerr + pyval" where
  "example_http w c =
     (if call_verb c = GET \<and> call_url c = ''https://api.omise.co/charges/chrg_0''
      then Inr (PDict [(''object'', PStr ''error''), (''code'', PStr ''not_found''),
                       (''message'', PStr ''charge was not found'')])
      else Inr (PDict [(''object'', PStr ''charge''), (''id'', PStr ''chrg_1''),
                       (''description'', PStr ''new'')]))"

definition example_env :: env where
  "example_env =
     \<lparr>api_secret = Some ''skey_test'', api_public = None, lib_version = ''0.3.0'',
      http = example_http, obj_repr = (\<lambda>x. ''object''),
      url_checks = \<lparr>bracketed_host_valid = (\<lambda>h. True), nfkc_valid = (\<lambda>n. True)\<rparr>\<rparr>"

text \<open>The same application in front of a server that answers every request with the
  given body.\<close>

definition answering :: "dict \<Rightarrow> env" where
  "answering body = example_env\<lparr>http := (\<lambda>w c. Inr (PDict body))\<rparr>"

definition example_charge :: inst where
  "example_charge =
     \<lparr>cls_of = Charge,
      attributes = [(''object'', PStr ''charge''), (''id'', PStr ''chrg_1''),
                    (''description'', PStr ''draft''), (''amount'', PInt 500)],
      changeset = [''amount'', ''description''],
      own = []\<rparr>"

section \<open>Auxiliary facts\<close>

lemma update_fresh: "k \<notin> fst ` set al \<Longrightarrow> AList.update k v al = al @ [(k, v)]"
  by (induction al) auto

lemma fold_update_distinct:
  "distinct (map fst (acc @ d)) \<Longrightarrow> fold (\<lambda>(k, v) a. AList.update k v a) d acc = acc @ d"
proof (induction d arbitrary: acc)
  case Nil
  then show ?case by simp
next
  case (Cons p d)
  obtain k v where p: "p = (k, v)" by (cases p)
  from Cons.prems have fresh: "k \<notin> fst ` set acc" by (auto simp: p)
  from Cons.prems have "distinct (map fst ((acc @ [(k, v)]) @ d))" by (auto simp: p)
  from Cons.IH [OF this] show ?case by (simp add: p update_fresh [OF fresh])
qed

lemma reload_data_distinct:
  "distinct (map fst d) \<Longrightarrow> Base_reload_data d self = self\<lparr>attributes := d, changeset := []\<rparr>"
  using fold_update_distinct [of "[]" d] by (simp add: Base_reload_data_def)

lemma from_data_distinct:
  "distinct (map fst d) \<Longrightarrow>
     Base_from_data c d = \<lparr>cls_of = c, attributes = d, changeset = [], own = []\<rparr>"
  by (simp add: Base_from_data_def reload_data_distinct Base_init_def)

lemma map_of_fold_update:
  "map_of (fold (\<lambda>(k, v) a. AList.update k v a) d acc) k =
     (case map_of (rev d) k of None \<Rightarrow> map_of acc k | Some v \<Rightarrow> Some v)"
  by (induction d arbitrary: acc) (auto simp: update_conv' split: option.splits)

lemma map_of_rev_distinct: "distinct (map fst d) \<Longrightarrow> map_of (rev d) = map_of d"
  by (rule map_of_inject_set [THEN iffD2]) (simp_all add: rev_map [symmetric])

lemma map_of_changes:
  "map_of (changes self) k =
     (if k \<in> set (changeset self) then Some (dict_get (attributes self) k) else None)"
proof -
  have "map_of (fold (\<lambda>c a. AList.update c (f c) a) cs acc) k =
          (if k \<in> set cs then Some (f k) else map_of acc k)" for f cs and acc :: dict
    by (induction cs arbitrary: acc) (auto simp: update_conv')
  then show ?thesis by (simp add: changes_def)
qed

lemma changes_reload: "changes (Base_reload_data d self) = []"
  by (simp add: changes_def Base_reload_data_def)

lemma collect_map_Inr: "collect (map Inr xs) = Inr xs"
  by (induction xs) auto

lemma collect_InrD: "collect rs = Inr xs \<Longrightarrow> rs = map Inr xs"
  by (induction rs arbitrary: xs rule: collect.induct) (auto split: sum.splits)

lemma collect_Inr: "collect rs = Inr xs \<longleftrightarrow> rs = map Inr xs"
  using collect_InrD collect_map_Inr by blast

lemma map_as_object_eq:
  "map as_object xs = map Inr os \<longleftrightarrow> list_all2 (\<lambda>x y. as_object x = Inr y) xs os"
  by (induction xs arbitrary: os) (auto simp: list_all2_Cons1)

lemma as_object_list:
  "as_object (PList xs) = Inr ob \<longleftrightarrow>
     (\<exists>os. ob = OList os \<and> list_all2 (\<lambda>x y. as_object x = Inr y) xs os)"
proof -
  have "as_object (PList xs) = Inr ob \<longleftrightarrow>
          (\<exists>os. ob = OList os \<and> collect (map as_object xs) = Inr os)"
    by (auto split: sum.splits)
  then show ?thesis by (simp add: collect_Inr map_as_object_eq)
qed

lemma get_class_for_hashable:
  "\<not> is_list t \<Longrightarrow> \<not> is_dict t \<Longrightarrow>
     get_class_for t = Inr (case t of PStr s \<Rightarrow> map_of registry s | _ \<Rightarrow> None)"
  by (cases t) simp_all

lemma as_object_dict:
  assumes "distinct (map fst d)" and "map_of d ''object'' = Some t"
    and "\<not> is_list t" and "\<not> is_dict t"
  shows "as_object (PDict d) =
           Inr (OInst \<lparr>cls_of = class_for t, attributes = d, changeset = [], own = []\<rparr>)"
  using assms by (cases t) (simp_all add: from_data_distinct split: option.splits)

lemma as_object_scalar: "\<not> is_list v \<Longrightarrow> \<not> is_dict v \<Longrightarrow> as_object v = Inr (ORaw v)"
  by (cases v) simp_all

section \<open>Properties of the object factory\<close>

text \<open>
  Claim C4. The object factory maps a list to a new list whose elements are the
  materialized elements of the input, one for one and in the same order: it succeeds
  with \<open>ob\<close> exactly when \<open>ob\<close> is such a list. It maps a dict whose \<^verbatim>\<open>'object'\<close>
  entry is a value that can be hashed to an instance of the class registered for that
  value, or of \<open>Base\<close> when the value is not in the registry, loaded with the entries of
  the dict and with no pending change. Any value that is neither a list nor a dict is
  returned unchanged. (A dict has each key once; the dict without the entry is the
  subject of claim C10, and a discriminator that is itself a list or a dict cannot be
  looked up in the registry.)
\<close>

theorem as_object_materializes:
  "(as_object (PList xs) = Inr ob \<longleftrightarrow>
      (\<exists>os. ob = OList os \<and> list_all2 (\<lambda>x y. as_object x = Inr y) xs os))
   \<and> (distinct (map fst d) \<longrightarrow> map_of d ''object'' = Some t \<longrightarrow> \<not> is_list t \<longrightarrow> \<not> is_dict t \<longrightarrow>
        as_object (PDict d) =
          Inr (OInst \<lparr>cls_of = class_for t, attributes = d, changeset = [], own = []\<rparr>))
   \<and> (\<not> is_list v \<longrightarrow> \<not> is_dict v \<longrightarrow> as_object v = Inr (ORaw v))"
  using as_object_list [of xs ob] as_object_dict [of d t] as_object_scalar [of v] by blast

theorem as_object_materializes_witness:
  "as_object (PList [PDict [(''object'', PStr ''charge''), (''id'', PStr ''chrg_1'')],
                     PDict [(''object'', PStr ''gift''), (''id'', PInt 7)],
                     PInt 3])
     = Inr (OList
         [OInst \<lparr>cls_of = Charge,
                 attributes = [(''object'', PStr ''charge''), (''id'', PStr ''chrg_1'')],
                 changeset = [], own = []\<rparr>,
          OInst \<lparr>cls_of = Base,
                 attributes = [(''object'', PStr ''gift''), (''id'', PInt 7)],
                 changeset = [], own = []\<rparr>,
          ORaw (PInt 3)])"
proof -
  let ?c = "[(''object'', PStr ''charge''), (''id'', PStr ''chrg_1'')]"
  let ?g = "[(''object'', PStr ''gift''), (''id'', PInt 7)]"
  have c: "as_object (PDict ?c) =
             Inr (OInst \<lparr>cls_of = Charge, attributes = ?c, changeset = [], own = []\<rparr>)"
    using as_object_materializes [of _ _ ?c "PStr ''charge''"] by (simp add: registry_def)
  have g: "as_object (PDict ?g) =
             Inr (OInst \<lparr>cls_of = Base, attributes = ?g, changeset = [], own = []\<rparr>)"
    using as_object_materializes [of _ _ ?g "PStr ''gift''"] by (simp add: registry_def)
  have n: "as_object (PInt 3) = Inr (ORaw (PInt 3))"
    using as_object_materializes [of _ _ _ _ "PInt 3"] by simp
  show ?thesis
    using as_object_materializes [of "[PDict ?c, PDict ?g, PInt 3]"] c g n by simp
qed

text \<open>
  Claim C10. For a dict without the key \<^verbatim>\<open>'object'\<close> the object factory fails with a
  \<^verbatim>\<open>KeyError\<close> for that key. An instance of the generic class \<open>Base\<close> comes out of
  the factory only for a dict that has the key, with a value that is not a registered
  name.
\<close>

theorem as_object_missing_discriminator:
  "(map_of d ''object'' = None \<longrightarrow> as_object (PDict d) = Inl (KeyError ''object''))
   \<and> (\<forall>self. as_object (PDict d) = Inr (OInst self) \<longrightarrow> cls_of self = Base \<longrightarrow>
         (\<exists>t. map_of d ''object'' = Some t \<and> t \<notin> PStr ` fst ` set registry))"
proof -
  have "t \<notin> PStr ` fst ` set registry"
    if "map_of d ''object'' = Some t" "as_object (PDict d) = Inr (OInst self)"
      "cls_of self = Base" for t self
    using that
    by (cases t)
      (auto simp: Base_from_data_def Base_reload_data_def Base_init_def registry_def
        split: option.splits if_splits)
  then show ?thesis
    by (cases "map_of d ''object''") auto
qed

theorem as_object_missing_discriminator_witness:
  "as_object (PDict [(''id'', PStr ''chrg_1'')]) = Inl (KeyError ''object'')
   \<and> as_object (PDict [(''object'', PStr ''gift'')])
       = Inr (OInst \<lparr>cls_of = Base, attributes = [(''object'', PStr ''gift'')],
                     changeset = [], own = []\<rparr>)
   \<and> (\<exists>t. map_of [(''object'', PStr ''gift'')] ''object'' = Some t
          \<and> t \<notin> PStr ` fst ` set registry)"
  using as_object_missing_discriminator [of "[(''id'', PStr ''chrg_1'')]"]
    as_object_missing_discriminator [of "[(''object'', PStr ''gift'')]"]
  by (simp add: registry_def Base_from_data_def Base_reload_data_def Base_init_def)

lemma tracks_act:
  "tracks self m \<Longrightarrow> writes_fields a \<Longrightarrow> \<exists>self'. act a self = Inr self' \<and> tracks self' (track m a)"
  by (cases a)
    (auto simp: tracks_def Base_setattr_def field_name_def Base_reload_data_def update_conv'
      split: list.splits)

lemma tracks_run:
  "tracks self m \<Longrightarrow> list_all writes_fields as \<Longrightarrow>
     \<exists>self'. run as self = Inr self' \<and> tracks self' (foldl track m as)"
proof (induction as arbitrary: self m)
  case Nil
  then show ?case by simp
next
  case (Cons a as)
  from Cons.prems obtain s1 where s1: "act a self = Inr s1" "tracks s1 (track m a)"
    using tracks_act [of self m a] by auto
  from Cons.IH [OF s1(2)] Cons.prems(2) s1(1) show ?case by simp
qed

lemma tracks_changes: "tracks self m \<Longrightarrow> map_of (changes self) = m"
  by (rule ext) (auto simp: map_of_changes tracks_def dict_get_def domIff split: option.splits)

lemma tracks_init: "tracks (Base_init c) Map.empty"
  by (simp add: tracks_def Base_init_def)

section \<open>Properties of the change-tracking record\<close>

text \<open>
  Claim C3. Loading a mapping (with each key once) replaces the whole internal mapping
  by the entries of the given one, empties the set of changes and returns the record
  itself, its other parts untouched; after a load no change is pending. For a record
  fresh from its constructor and every history of loads and of writes to field names
  (not empty, no leading underscore), the history runs without an exception and
  \<open>changes\<close> then holds exactly the names written since the last load, each with the raw
  value written last.
\<close>

theorem change_tracking:
  "(distinct (map fst d) \<longrightarrow>
      Base_reload_data d self = self\<lparr>attributes := d, changeset := []\<rparr>)
   \<and> changes (Base_reload_data d self) = []
   \<and> (list_all writes_fields as \<longrightarrow>
        (\<exists>self'. run as (Base_init c) = Inr self'
           \<and> map_of (changes self') = written_since_load as))"
  using tracks_run [OF tracks_init, of as c] tracks_changes
  by (auto simp: reload_data_distinct written_since_load_def changes_reload)

theorem change_tracking_witness:
  "distinct (map fst [(''id'', PStr ''cust_1''), (''email'', PStr ''c'')])
   \<and> Base_reload_data [(''id'', PStr ''cust_1''), (''email'', PStr ''c'')]
        \<lparr>cls_of = Customer, attributes = [(''email'', PStr ''b'')],
         changeset = [''email''], own = []\<rparr>
       = \<lparr>cls_of = Customer,
          attributes = [(''id'', PStr ''cust_1''), (''email'', PStr ''c'')],
          changeset = [], own = []\<rparr>
   \<and> list_all writes_fields
        [Write ''email'' (PStr ''a''), Write ''email'' (PStr ''b''),
         Load [(''id'', PStr ''cust_1''), (''email'', PStr ''c'')],
         Write ''description'' (PStr ''d''), Write ''description'' (PStr ''e'')]
   \<and> (\<exists>self'.
         run [Write ''email'' (PStr ''a''), Write ''email'' (PStr ''b''),
              Load [(''id'', PStr ''cust_1''), (''email'', PStr ''c'')],
              Write ''description'' (PStr ''d''), Write ''description'' (PStr ''e'')]
           (Base_init Customer) = Inr self'
         \<and> map_of (changes self') = [''description'' \<mapsto> PStr ''e''])"
  using change_tracking
    [of "[(''id'', PStr ''cust_1''), (''email'', PStr ''c'')]"
        "\<lparr>cls_of = Customer, attributes = [(''email'', PStr ''b'')],
          changeset = [''email''], own = []\<rparr>"
        "[Write ''email'' (PStr ''a''), Write ''email'' (PStr ''b''),
          Load [(''id'', PStr ''cust_1''), (''email'', PStr ''c'')],
          Write ''description'' (PStr ''d''), Write ''description'' (PStr ''e'')]"
        Customer]
  by (simp add: field_name_def written_since_load_def)

text \<open>The hook \<^verbatim>\<open>__getattr__\<close> on a field name: the three cases of its body.\<close>

lemma Base_getattr_cases:
  assumes "field_name key"
  shows "map_of (attributes self) key = None \<Longrightarrow> Base_getattr key self = Inl (AttributeError key)"
    and "map_of (attributes self) key = Some (PDict d) \<Longrightarrow>
          Base_getattr key self =
            (case as_object (PDict d) of
               Inl (KeyError a) \<Rightarrow> Inl (AttributeError a)
             | Inl err \<Rightarrow> Inl err
             | Inr ob \<Rightarrow> Inr ob)"
    and "map_of (attributes self) key = Some v \<Longrightarrow> \<not> is_dict v \<Longrightarrow>
          Base_getattr key self = Inr (ORaw v)"
proof -
  show "Base_getattr key self = Inr (ORaw v)"
    if "map_of (attributes self) key = Some v" "\<not> is_dict v"
    using that assms
    by (cases v) (auto simp: Base_getattr_def field_name_def split: list.splits)
  show "map_of (attributes self) key = None \<Longrightarrow> Base_getattr key self = Inl (AttributeError key)"
    using assms by (auto simp: Base_getattr_def field_name_def split: list.splits)
  show "map_of (attributes self) key = Some (PDict d) \<Longrightarrow>
          Base_getattr key self =
            (case as_object (PDict d) of
               Inl (KeyError a) \<Rightarrow> Inl (AttributeError a)
             | Inl err \<Rightarrow> Inl err
             | Inr ob \<Rightarrow> Inr ob)"
    using assms by (auto simp: Base_getattr_def field_name_def split: list.splits)
qed

lemma not_member:
  "key \<notin> set member_names \<Longrightarrow> map_of (class_members c) key = None"
  by (cases c) (auto simp: member_names_def class_members_def own_members_def)

text \<open>
  Claim C5, as stated for every name without a leading underscore, fails on the names
  that a class binds. A charge as the server sends it holds the field \<^verbatim>\<open>capture\<close>,
  a boolean; the read \<^verbatim>\<open>charge.capture\<close> gives the method of that name and not the
  stored value. No record holds a field \<^verbatim>\<open>changes\<close> after a load that has none, yet
  the read \<^verbatim>\<open>charge.changes\<close> gives the empty dict of the property and raises
  nothing.
\<close>

theorem attribute_read_class_member:
  "field_name ''capture''
   \<and> map_of (attributes
        \<lparr>cls_of = Charge,
         attributes = [(''object'', PStr ''charge''), (''id'', PStr ''chrg_1''),
                       (''capture'', PBool False)],
         changeset = [], own = []\<rparr>) ''capture'' = Some (PBool False)
   \<and> getattribute ''capture''
        \<lparr>cls_of = Charge,
         attributes = [(''object'', PStr ''charge''), (''id'', PStr ''chrg_1''),
                       (''capture'', PBool False)],
         changeset = [], own = []\<rparr>
       = Inr (BoundMethod ''capture'')
   \<and> getattribute ''capture''
        \<lparr>cls_of = Charge,
         attributes = [(''object'', PStr ''charge''), (''id'', PStr ''chrg_1''),
                       (''capture'', PBool False)],
         changeset = [], own = []\<rparr>
       \<noteq> Inr (Value (ORaw (PBool False)))
   \<and> field_name ''changes''
   \<and> map_of (attributes
        \<lparr>cls_of = Charge,
         attributes = [(''object'', PStr ''charge''), (''id'', PStr ''chrg_1''),
                       (''capture'', PBool False)],
         changeset = [], own = []\<rparr>) ''changes'' = None
   \<and> getattribute ''changes''
        \<lparr>cls_of = Charge,
         attributes = [(''object'', PStr ''charge''), (''id'', PStr ''chrg_1''),
                       (''capture'', PBool False)],
         changeset = [], own = []\<rparr>
       = Inr (Value (ORaw (PDict [])))
   \<and> getattribute ''changes''
        \<lparr>cls_of = Charge,
         attributes = [(''object'', PStr ''charge''), (''id'', PStr ''chrg_1''),
                       (''capture'', PBool False)],
         changeset = [], own = []\<rparr>
       \<noteq> Inl (AttributeError ''changes'')"
  by (simp add: field_name_def getattribute_def class_members_def own_members_def changes_def)

text \<open>
  Claim C5, amended. A read \<^verbatim>\<open>rec.key\<close> of a name that is not empty and does not start
  with an underscore. When the class of the record, or \<^verbatim>\<open>Base\<close>, binds the name (one
  of \<^verbatim>\<open>from_data\<close>, \<^verbatim>\<open>changes\<close>, \<^verbatim>\<open>create\<close>, \<^verbatim>\<open>retrieve\<close>, \<^verbatim>\<open>reload\<close>,
  \<^verbatim>\<open>update\<close>, \<^verbatim>\<open>destroy\<close>, \<^verbatim>\<open>destroyed\<close>, \<^verbatim>\<open>capture\<close>, \<^verbatim>\<open>refund\<close>; a name outside
  this list is bound by no class), the read gives that member, whatever the internal
  mapping holds: the dict of pending changes, the deletion flag, or the bound method.
  For every other name the read goes through \<^verbatim>\<open>__getattr__\<close>: when the name is not
  in the internal mapping the read fails with an \<^verbatim>\<open>AttributeError\<close> for that name;
  when the stored value is a dict the result is that of the object factory on it,
  computed at this read from the stored raw value (a \<^verbatim>\<open>KeyError\<close> of the factory leaves
  as an \<^verbatim>\<open>AttributeError\<close>); any other stored value, a list of dicts included, is
  returned as it is stored. The read is a function of the record and the name and
  stores nothing.
\<close>

theorem attribute_read:
  "field_name key \<longrightarrow>
     (key \<notin> set member_names \<longrightarrow> map_of (class_members (cls_of self)) key = None)
   \<and> (map_of (class_members (cls_of self)) key = None \<longrightarrow>
        (map_of (attributes self) key = None \<longrightarrow>
           getattribute key self = Inl (AttributeError key))
      \<and> (\<forall>d. map_of (attributes self) key = Some (PDict d) \<longrightarrow>
             getattribute key self =
               (case as_object (PDict d) of
                  Inl (KeyError a) \<Rightarrow> Inl (AttributeError a)
                | Inl err \<Rightarrow> Inl err
                | Inr ob \<Rightarrow> Inr (Value ob)))
      \<and> (\<forall>v. map_of (attributes self) key = Some v \<longrightarrow> \<not> is_dict v \<longrightarrow>
             getattribute key self = Inr (Value (ORaw v))))
   \<and> (map_of (class_members (cls_of self)) key = Some ChangesProperty \<longrightarrow>
        getattribute key self = Inr (Value (ORaw (PDict (changes self)))))
   \<and> (map_of (class_members (cls_of self)) key = Some DestroyedProperty \<longrightarrow>
        getattribute key self = Inr (Value (ORaw (destroyed self))))
   \<and> (map_of (class_members (cls_of self)) key = Some InstanceMethod
       \<or> map_of (class_members (cls_of self)) key = Some ClassMethod \<longrightarrow>
        getattribute key self = Inr (BoundMethod key))"
proof (intro impI)
  assume key: "field_name key"
  note hook = Base_getattr_cases [OF key, of self]
  have 1: "key \<notin> set member_names \<longrightarrow> map_of (class_members (cls_of self)) key = None"
    by (simp add: not_member)
  have 2: "getattribute key self = Inl (AttributeError key)"
    if "map_of (class_members (cls_of self)) key = None" "map_of (attributes self) key = None"
    using that hook(1) by (simp add: getattribute_def)
  have 3: "getattribute key self =
             (case as_object (PDict d) of
                Inl (KeyError a) \<Rightarrow> Inl (AttributeError a)
              | Inl err \<Rightarrow> Inl err
              | Inr ob \<Rightarrow> Inr (Value ob))"
    if "map_of (class_members (cls_of self)) key = None"
      "map_of (attributes self) key = Some (PDict d)" for d
    using that hook(2) [of d]
    by (auto simp: getattribute_def split: sum.splits pyerr.splits)
  have 4: "getattribute key self = Inr (Value (ORaw v))"
    if "map_of (class_members (cls_of self)) key = None"
      "map_of (attributes self) key = Some v" "\<not> is_dict v" for v
    using that hook(3) [of v] by (simp add: getattribute_def)
  have 5: "map_of (class_members (cls_of self)) key = Some ChangesProperty \<longrightarrow>
        getattribute key self = Inr (Value (ORaw (PDict (changes self))))"
    "map_of (class_members (cls_of self)) key = Some DestroyedProperty \<longrightarrow>
        getattribute key self = Inr (Value (ORaw (destroyed self)))"
    "map_of (class_members (cls_of self)) key = Some InstanceMethod
       \<or> map_of (class_members (cls_of self)) key = Some ClassMethod \<longrightarrow>
        getattribute key self = Inr (BoundMethod key)"
    by (auto simp: getattribute_def)
  from 1 2 3 4 5 show
    "(key \<notin> set member_names \<longrightarrow> map_of (class_members (cls_of self)) key = None)
   \<and> (map_of (class_members (cls_of self)) key = None \<longrightarrow>
        (map_of (attributes self) key = None \<longrightarrow>
           getattribute key self = Inl (AttributeError key))
      \<and> (\<forall>d. map_of (attributes self) key = Some (PDict d) \<longrightarrow>
             getattribute key self =
               (case as_object (PDict d) of
                  Inl (KeyError a) \<Rightarrow> Inl (AttributeError a)
                | Inl err \<Rightarrow> Inl err
                | Inr ob \<Rightarrow> Inr (Value ob)))
      \<and> (\<forall>v. map_of (attributes self) key = Some v \<longrightarrow> \<not> is_dict v \<longrightarrow>
             getattribute key self = Inr (Value (ORaw v))))
   \<and> (map_of (class_members (cls_of self)) key = Some ChangesProperty \<longrightarrow>
        getattribute key self = Inr (Value (ORaw (PDict (changes self)))))
   \<and> (map_of (class_members (cls_of self)) key = Some DestroyedProperty \<longrightarrow>
        getattribute key self = Inr (Value (ORaw (destroyed self))))
   \<and> (map_of (class_members (cls_of self)) key = Some InstanceMethod
       \<or> map_of (class_members (cls_of self)) key = Some ClassMethod \<longrightarrow>
        getattribute key self = Inr (BoundMethod key))"
    by blast
qed

theorem attribute_read_witness:
  "field_name ''card'' \<and> field_name ''refunds'' \<and> field_name ''amount''
   \<and> field_name ''refund''
   \<and> ''card'' \<notin> set member_names \<and> ''refunds'' \<notin> set member_names
   \<and> ''amount'' \<notin> set member_names
   \<and> getattribute ''amount''
        \<lparr>cls_of = Charge,
         attributes = [(''card'', PDict [(''object'', PStr ''card'')]),
                       (''refunds'', PList [PDict [(''object'', PStr ''refund'')]]),
                       (''refund'', PInt 0)],
         changeset = [], own = []\<rparr>
       = Inl (AttributeError ''amount'')
   \<and> getattribute ''card''
        \<lparr>cls_of = Charge,
         attributes = [(''card'', PDict [(''object'', PStr ''card'')]),
                       (''refunds'', PList [PDict [(''object'', PStr ''refund'')]]),
                       (''refund'', PInt 0)],
         changeset = [], own = []\<rparr>
       = Inr (Value (OInst \<lparr>cls_of = Card, attributes = [(''object'', PStr ''card'')],
                            changeset = [], own = []\<rparr>))
   \<and> getattribute ''refunds''
        \<lparr>cls_of = Charge,
         attributes = [(''card'', PDict [(''object'', PStr ''card'')]),
                       (''refunds'', PList [PDict [(''object'', PStr ''refund'')]]),
                       (''refund'', PInt 0)],
         changeset = [], own = []\<rparr>
       = Inr (Value (ORaw (PList [PDict [(''object'', PStr ''refund'')]])))
   \<and> getattribute ''refund''
        \<lparr>cls_of = Charge,
         attributes = [(''card'', PDict [(''object'', PStr ''card'')]),
                       (''refunds'', PList [PDict [(''object'', PStr ''refund'')]]),
                       (''refund'', PInt 0)],
         changeset = [], own = []\<rparr>
       = Inr (BoundMethod ''refund'')"
proof -
  let ?r = "\<lparr>cls_of = Charge,
         attributes = [(''card'', PDict [(''object'', PStr ''card'')]),
                       (''refunds'', PList [PDict [(''object'', PStr ''refund'')]]),
                       (''refund'', PInt 0)],
         changeset = [], own = []\<rparr>"
  have names: "field_name ''card''" "field_name ''refunds''" "field_name ''amount''"
    "field_name ''refund''"
    "''card'' \<notin> set member_names" "''refunds'' \<notin> set member_names"
    "''amount'' \<notin> set member_names"
    by (simp_all add: field_name_def member_names_def)
  have m: "map_of (class_members (cls_of ?r)) ''refund'' = Some InstanceMethod"
    by (simp add: class_members_def own_members_def)
  from attribute_read [of "''amount''" ?r] names
  have 1: "getattribute ''amount'' ?r = Inl (AttributeError ''amount'')"
    by simp
  from attribute_read [of "''card''" ?r] names
  have 2: "getattribute ''card'' ?r
             = Inr (Value (OInst \<lparr>cls_of = Card, attributes = [(''object'', PStr ''card'')],
                                  changeset = [], own = []\<rparr>))"
    by (simp add: registry_def Base_from_data_def Base_reload_data_def Base_init_def)
  from attribute_read [of "''refunds''" ?r] names
  have 3: "getattribute ''refunds'' ?r
             = Inr (Value (ORaw (PList [PDict [(''object'', PStr ''refund'')]])))"
    by simp
  from attribute_read [of "''refund''" ?r] names m
  have 4: "getattribute ''refund'' ?r = Inr (BoundMethod ''refund'')"
    by simp
  from names 1 2 3 4 show ?thesis by simp
qed

lemma yield_each_all:
  "yield_each xs = (os, None) \<longleftrightarrow> list_all2 (\<lambda>x y. as_object x = Inr y) xs os"
proof (induction xs arbitrary: os)
  case Nil
  then show ?case by auto
next
  case (Cons x xs)
  show ?case
  proof (cases "as_object x")
    case (Inl err)
    then show ?thesis by (auto simp: list_all2_Cons1)
  next
    case (Inr ob)
    obtain ys r where ys: "yield_each xs = (ys, r)" by (cases "yield_each xs")
    show ?thesis
      using Cons.IH [of ys] Cons.IH [of "tl os"] Inr ys
      by (cases os) (auto simp: list_all2_Cons1)
  qed
qed

lemma retrieve_loop_find:
  "list_all has_id xs \<Longrightarrow>
     retrieve_loop xs oid =
       (case find (id_is oid) xs of None \<Rightarrow> Inr (ORaw PNone) | Some x \<Rightarrow> as_object x)"
  by (induction xs) (auto simp: has_id_def id_is_def split: sum.splits)

lemma attributes_from_data:
  "distinct (map fst m) \<Longrightarrow> attributes (Base_from_data c m) = m"
  by (simp add: from_data_distinct)

lemma seq_index_nat: "i < length xs \<Longrightarrow> seq_index xs (int i) = Inr (xs ! i)"
  by (simp add: seq_index_def)

lemma seq_index_neg:
  "0 < i \<Longrightarrow> i \<le> length xs \<Longrightarrow> seq_index xs (- int i) = Inr (xs ! (length xs - i))"
  by (simp add: seq_index_def nat_diff_distrib' flip: of_nat_diff)

section \<open>Properties of collections\<close>

text \<open>
  Claim C6. For a collection loaded from a mapping (with each key once) that has the
  list \<open>xs\<close> under \<^verbatim>\<open>'data'\<close>: its length is the length of \<open>xs\<close>; when the elements
  materialize to the objects \<open>os\<close>, one for one, iteration yields exactly \<open>os\<close> in that
  order and ends normally, \<^verbatim>\<open>retrieve()\<close> without an identifier returns the list
  \<open>os\<close>, and the access at index \<open>i\<close> returns \<open>os ! i\<close>; the access at an index in range
  materializes the element at that index, counted from the end for a negative index;
  when every element can be asked for its \<^verbatim>\<open>'id'\<close>, \<^verbatim>\<open>retrieve(oid)\<close> returns the
  materialized first element whose \<^verbatim>\<open>'id'\<close> equals \<open>oid\<close>, and \<^verbatim>\<open>None\<close> when there
  is no such element.
\<close>

theorem collection_access:
  "distinct (map fst m) \<longrightarrow> map_of m ''data'' = Some (PList xs) \<longrightarrow>
     Collection_len (Base_from_data Collection m) = Inr (length xs)
   \<and> (\<forall>os. list_all2 (\<lambda>x y. as_object x = Inr y) xs os \<longrightarrow>
          Collection_iter (Base_from_data Collection m) = (os, None)
        \<and> Collection_retrieve (Base_from_data Collection m) None = Inr (OList os)
        \<and> (\<forall>i < length xs.
              Collection_getitem (Base_from_data Collection m) (int i) = Inr (os ! i)))
   \<and> (\<forall>i < length xs.
          Collection_getitem (Base_from_data Collection m) (int i) = as_object (xs ! i))
   \<and> (\<forall>i. 0 < i \<longrightarrow> i \<le> length xs \<longrightarrow>
          Collection_getitem (Base_from_data Collection m) (- int i)
            = as_object (xs ! (length xs - i)))
   \<and> (list_all has_id xs \<longrightarrow>
         Collection_retrieve (Base_from_data Collection m) (Some oid) =
           (case find (id_is oid) xs of
              None \<Rightarrow> Inr (ORaw PNone)
            | Some x \<Rightarrow> as_object x))"
proof (intro impI)
  assume m: "distinct (map fst m)" and d: "map_of m ''data'' = Some (PList xs)"
  let ?self = "Base_from_data Collection m"
  have item: "attr_item ?self ''data'' = Inr (PList xs)"
    using d by (simp add: attr_item_def attributes_from_data [OF m])
  have len: "Collection_len ?self = Inr (length xs)"
    by (simp add: Collection_len_def item)
  have iter: "Collection_iter ?self = yield_each xs"
    by (simp add: Collection_iter_def item)
  have get: "Collection_getitem ?self (int i) = as_object (xs ! i)" if "i < length xs" for i
    using that by (simp add: Collection_getitem_def item seq_index_nat)
  have neg: "Collection_getitem ?self (- int i) = as_object (xs ! (length xs - i))"
    if "0 < i" "i \<le> length xs" for i
    using that by (simp add: Collection_getitem_def item seq_index_neg)
  have all: "Collection_iter ?self = (os, None)
      \<and> Collection_retrieve ?self None = Inr (OList os)
      \<and> (\<forall>i < length xs. Collection_getitem ?self (int i) = Inr (os ! i))"
    if "list_all2 (\<lambda>x y. as_object x = Inr y) xs os" for os
  proof -
    from that have y: "yield_each xs = (os, None)" by (simp add: yield_each_all)
    from that have "as_object (xs ! i) = Inr (os ! i)" if "i < length xs" for i
      using that by (simp add: list_all2_conv_all_nth)
    with y show ?thesis by (simp add: iter Collection_retrieve_def get)
  qed
  have ret: "Collection_retrieve ?self (Some oid) =
      (case find (id_is oid) xs of None \<Rightarrow> Inr (ORaw PNone) | Some x \<Rightarrow> as_object x)"
    if "list_all has_id xs"
    using that by (simp add: Collection_retrieve_def item retrieve_loop_find)
  from len all get neg ret
  show "Collection_len ?self = Inr (length xs)
   \<and> (\<forall>os. list_all2 (\<lambda>x y. as_object x = Inr y) xs os \<longrightarrow>
          Collection_iter ?self = (os, None)
        \<and> Collection_retrieve ?self None = Inr (OList os)
        \<and> (\<forall>i < length xs. Collection_getitem ?self (int i) = Inr (os ! i)))
   \<and> (\<forall>i < length xs. Collection_getitem ?self (int i) = as_object (xs ! i))
   \<and> (\<forall>i. 0 < i \<longrightarrow> i \<le> length xs \<longrightarrow>
          Collection_getitem ?self (- int i) = as_object (xs ! (length xs - i)))
   \<and> (list_all has_id xs \<longrightarrow>
         Collection_retrieve ?self (Some oid) =
           (case find (id_is oid) xs of
              None \<Rightarrow> Inr (ORaw PNone)
            | Some x \<Rightarrow> as_object x))"
    by blast
qed

theorem collection_access_witness:
  "distinct (map fst
      [(''object'', PStr ''list''),
       (''data'', PList [PDict [(''object'', PStr ''charge''), (''id'', PStr ''chrg_1'')],
                         PDict [(''object'', PStr ''charge''), (''id'', PStr ''chrg_2'')]])])
   \<and> Collection_len (Base_from_data Collection
        [(''object'', PStr ''list''),
         (''data'', PList [PDict [(''object'', PStr ''charge''), (''id'', PStr ''chrg_1'')],
                           PDict [(''object'', PStr ''charge''), (''id'', PStr ''chrg_2'')]])])
       = Inr 2
   \<and> Collection_iter (Base_from_data Collection
        [(''object'', PStr ''list''),
         (''data'', PList [PDict [(''object'', PStr ''charge''), (''id'', PStr ''chrg_1'')],
                           PDict [(''object'', PStr ''charge''), (''id'', PStr ''chrg_2'')]])])
       = ([OInst \<lparr>cls_of = Charge,
                   attributes = [(''object'', PStr ''charge''), (''id'', PStr ''chrg_1'')],
                   changeset = [], own = []\<rparr>,
           OInst \<lparr>cls_of = Charge,
                   attributes = [(''object'', PStr ''charge''), (''id'', PStr ''chrg_2'')],
                   changeset = [], own = []\<rparr>], None)
   \<and> Collection_getitem (Base_from_data Collection
        [(''object'', PStr ''list''),
         (''data'', PList [PDict [(''object'', PStr ''charge''), (''id'', PStr ''chrg_1'')],
                           PDict [(''object'', PStr ''charge''), (''id'', PStr ''chrg_2'')]])]) 1
       = Inr (OInst \<lparr>cls_of = Charge,
                   attributes = [(''object'', PStr ''charge''), (''id'', PStr ''chrg_2'')],
                   changeset = [], own = []\<rparr>)
   \<and> Collection_retrieve (Base_from_data Collection
        [(''object'', PStr ''list''),
         (''data'', PList [PDict [(''object'', PStr ''charge''), (''id'', PStr ''chrg_1'')],
                           PDict [(''object'', PStr ''charge''), (''id'', PStr ''chrg_2'')]])])
        (Some ''chrg_2'')
       = Inr (OInst \<lparr>cls_of = Charge,
                   attributes = [(''object'', PStr ''charge''), (''id'', PStr ''chrg_2'')],
                   changeset = [], own = []\<rparr>)
   \<and> Collection_retrieve (Base_from_data Collection
        [(''object'', PStr ''list''),
         (''data'', PList [PDict [(''object'', PStr ''charge''), (''id'', PStr ''chrg_1'')],
                           PDict [(''object'', PStr ''charge''), (''id'', PStr ''chrg_2'')]])])
        (Some ''chrg_9'')
       = Inr (ORaw PNone)"
proof -
  let ?c1 = "PDict [(''object'', PStr ''charge''), (''id'', PStr ''chrg_1'')]"
  let ?c2 = "PDict [(''object'', PStr ''charge''), (''id'', PStr ''chrg_2'')]"
  let ?m = "[(''object'', PStr ''list''), (''data'', PList [?c1, ?c2])]"
  let ?o1 = "OInst \<lparr>cls_of = Charge,
                   attributes = [(''object'', PStr ''charge''), (''id'', PStr ''chrg_1'')],
                   changeset = [], own = []\<rparr>"
  let ?o2 = "OInst \<lparr>cls_of = Charge,
                   attributes = [(''object'', PStr ''charge''), (''id'', PStr ''chrg_2'')],
                   changeset = [], own = []\<rparr>"
  have m: "distinct (map fst ?m)" and d: "map_of ?m ''data'' = Some (PList [?c1, ?c2])"
    by simp_all
  have o1: "as_object ?c1 = Inr ?o1" and o2: "as_object ?c2 = Inr ?o2"
    by (simp_all add: registry_def Base_from_data_def Base_reload_data_def Base_init_def)
  have os: "list_all2 (\<lambda>x y. as_object x = Inr y) [?c1, ?c2] [?o1, ?o2]"
    using o1 o2 by simp
  have ids: "list_all has_id [?c1, ?c2]"
    by (simp add: has_id_def)
  note fact = collection_access [of ?m "[?c1, ?c2]", THEN mp, THEN mp, OF m d]
  have len: "Collection_len (Base_from_data Collection ?m) = Inr 2"
    using fact by simp
  from fact os
  have iter: "Collection_iter (Base_from_data Collection ?m) = ([?o1, ?o2], None)"
    and get: "\<forall>i < length [?c1, ?c2].
                Collection_getitem (Base_from_data Collection ?m) (int i) = Inr ([?o1, ?o2] ! i)"
    by blast+
  from get [THEN spec, of 1]
  have get1: "Collection_getitem (Base_from_data Collection ?m) 1 = Inr ?o2"
    by simp
  from fact [of "''chrg_2''"] ids o2
  have r2: "Collection_retrieve (Base_from_data Collection ?m) (Some ''chrg_2'') = Inr ?o2"
    by (simp add: id_is_def)
  from fact [of "''chrg_9''"] ids
  have r9: "Collection_retrieve (Base_from_data Collection ?m) (Some ''chrg_9'') = Inr (ORaw PNone)"
    by (simp add: id_is_def)
  from m len iter get1 r2 r9 show ?thesis by blast
qed

section \<open>Properties of the requestor\<close>

text \<open>
  Claim C1. A call of \<^verbatim>\<open>send\<close> whose URL is built and whose transport call gives a
  decoded dict: when the \<^verbatim>\<open>'object'\<close> entry of the body is the string
  \<^verbatim>\<open>error\<close>, the call raises what the error translator raises and returns no body;
  for every other body the call returns the body as the transport gave it. In both
  cases exactly one transport invocation is made. Moreover, whatever the inputs, a body
  that \<^verbatim>\<open>send\<close> returns is never an error payload, and it is the body the transport
  gave to the one invocation made.
\<close>

theorem send_result:
  "(build_path e self p = Inr u \<longrightarrow>
      http e w (transport_call e self method u payload hdrs) = Inr (PDict body) \<longrightarrow>
      send e self method p payload hdrs w =
        (if map_of body ''object'' = Some (PStr ''error'')
         then Inl (raise_from_data body) else Inr body,
         w @ [transport_call e self method u payload hdrs]))
   \<and> (\<forall>ret w'. send e self method p payload hdrs w = (Inr ret, w') \<longrightarrow>
          map_of ret ''object'' \<noteq> Some (PStr ''error'')
        \<and> (\<exists>call. w' = w @ [call] \<and> http e w call = Inr (PDict ret)))"
  by (auto simp: send_def Let_def split: sum.splits pyval.splits if_splits)

lemma urljoin_chrg_0:
  "urljoin ck ''https://api.omise.co'' ''charges/chrg_0''
     = Inr ''https://api.omise.co/charges/chrg_0''"
  by code_simp

lemma urljoin_chrg_1:
  "urljoin ck ''https://api.omise.co'' ''charges/chrg_1''
     = Inr ''https://api.omise.co/charges/chrg_1''"
  by code_simp

lemma example_path_0:
  "build_path example_env \<lparr>api_key = ''skey_test'', api_base = api_main\<rparr>
     (Segments [ORaw (PStr ''charges''), ORaw (PStr ''chrg_0'')])
     = Inr ''https://api.omise.co/charges/chrg_0''"
  by (simp add: build_path_def path_segments_def py_str_def api_main_def urljoin_chrg_0)

lemma example_path_1:
  "build_path example_env \<lparr>api_key = ''skey_test'', api_base = api_main\<rparr>
     (Segments [ORaw (PStr ''charges''), ORaw (PStr ''chrg_1'')])
     = Inr ''https://api.omise.co/charges/chrg_1''"
  by (simp add: build_path_def path_segments_def py_str_def api_main_def urljoin_chrg_1)

theorem send_result_witness:
  "send example_env \<lparr>api_key = ''skey_test'', api_base = api_main\<rparr> GET
       (Segments [ORaw (PStr ''charges''), ORaw (PStr ''chrg_0'')]) None None []
     = (Inl (OmiseError (Some (PStr ''not_found'')) (Some (PStr ''charge was not found''))),
        [transport_call example_env \<lparr>api_key = ''skey_test'', api_base = api_main\<rparr> GET
           ''https://api.omise.co/charges/chrg_0'' None None])
   \<and> send example_env \<lparr>api_key = ''skey_test'', api_base = api_main\<rparr> GET
       (Segments [ORaw (PStr ''charges''), ORaw (PStr ''chrg_1'')]) None None []
     = (Inr [(''object'', PStr ''charge''), (''id'', PStr ''chrg_1''),
             (''description'', PStr ''new'')],
        [transport_call example_env \<lparr>api_key = ''skey_test'', api_base = api_main\<rparr> GET
           ''https://api.omise.co/charges/chrg_1'' None None])"
proof -
  let ?r = "\<lparr>api_key = ''skey_test'', api_base = api_main\<rparr>"
  have h0: "http example_env [] (transport_call example_env ?r GET
              ''https://api.omise.co/charges/chrg_0'' None None)
            = Inr (PDict [(''object'', PStr ''error''), (''code'', PStr ''not_found''),
                          (''message'', PStr ''charge was not found'')])"
    by (simp add: example_env_def example_http_def transport_call_def)
  have h1: "http example_env [] (transport_call example_env ?r GET
              ''https://api.omise.co/charges/chrg_1'' None None)
            = Inr (PDict [(''object'', PStr ''charge''), (''id'', PStr ''chrg_1''),
                          (''description'', PStr ''new'')])"
    by (simp add: example_env_def example_http_def transport_call_def)
  show ?thesis
    using send_result [THEN conjunct1, THEN mp, THEN mp, OF example_path_0 h0]
      send_result [THEN conjunct1, THEN mp, THEN mp, OF example_path_1 h1]
    by (simp add: raise_from_data_def)
qed

text \<open>
  Claim C8. For every headers argument, none included, the headers built have
  \<^verbatim>\<open>Accept\<close> equal to \<^verbatim>\<open>application/json\<close> and a \<^verbatim>\<open>User-Agent\<close> made of the
  library version and the API compatibility date \<^verbatim>\<open>2014-07-27\<close>, whatever the caller
  gave for these two names; every other name has the entry the caller gave, or none.
  These are the headers of the transport invocation that \<^verbatim>\<open>send\<close> makes.
\<close>

theorem build_headers_baseline:
  "map_of (build_headers e hdrs) ''Accept'' = Some (PStr ''application/json'')
   \<and> map_of (build_headers e hdrs) ''User-Agent''
       = Some (PStr (''OmisePython/'' @ lib_version e @ '' OmiseAPI/2014-07-27''))
   \<and> (\<forall>k. k \<noteq> ''Accept'' \<longrightarrow> k \<noteq> ''User-Agent'' \<longrightarrow>
          map_of (build_headers e hdrs) k = map_of (case hdrs of None \<Rightarrow> [] | Some h \<Rightarrow> h) k)
   \<and> (\<forall>u. build_path e self p = Inr u \<longrightarrow>
          (\<exists>call. snd (send e self method p payload hdrs w) = w @ [call]
             \<and> call_headers call = build_headers e hdrs))"
  by (auto simp: build_headers_def update_conv' api_compat_def send_def Let_def
      transport_call_def split: sum.splits pyval.splits option.splits)

theorem build_headers_baseline_witness:
  "build_headers example_env
       (Some [(''Accept'', PStr ''text/html''), (''X-Trace'', PStr ''on'')])
     = [(''Accept'', PStr ''application/json''), (''X-Trace'', PStr ''on''),
        (''User-Agent'', PStr ''OmisePython/0.3.0 OmiseAPI/2014-07-27'')]
   \<and> map_of (build_headers example_env
       (Some [(''Accept'', PStr ''text/html''), (''X-Trace'', PStr ''on'')])) ''X-Trace''
     = Some (PStr ''on'')
   \<and> (\<exists>call. snd (send example_env \<lparr>api_key = ''skey_test'', api_base = api_main\<rparr> GET
                      (Segments [ORaw (PStr ''charges''), ORaw (PStr ''chrg_1'')]) None
                      (Some [(''Accept'', PStr ''text/html''), (''X-Trace'', PStr ''on'')]) [])
                = [] @ [call]
          \<and> call_headers call =
              build_headers example_env
                (Some [(''Accept'', PStr ''text/html''), (''X-Trace'', PStr ''on'')]))"
  using build_headers_baseline
    [of example_env "Some [(''Accept'', PStr ''text/html''), (''X-Trace'', PStr ''on'')]"
      "\<lparr>api_key = ''skey_test'', api_base = api_main\<rparr>"
      "Segments [ORaw (PStr ''charges''), ORaw (PStr ''chrg_1'')]" GET None "[]"]
    example_path_1
  by (simp add: build_headers_def example_env_def api_compat_def)

lemma unset_main:
  "api_secret e = None \<Longrightarrow>
     MainResource_request e method p payload w = (Inl (AttributeError ''API key is not set.''), w)"
  by (simp add: MainResource_request_def Request_init_def)

lemma unset_vault:
  "api_public e = None \<Longrightarrow>
     VaultResource_request e method p payload w = (Inl (AttributeError ''API key is not set.''), w)"
  by (simp add: VaultResource_request_def Request_init_def)

lemmas binding_defs =
  Account_retrieve_def Account_reload_def Balance_retrieve_def Balance_reload_def
  Token_create_def Token_retrieve_def Token_reload_def
  Card_reload_def Card_update_def Card_destroy_def Refund_reload_def
  Charge_create_def Charge_retrieve_def Charge_reload_def Charge_update_def
  Charge_capture_def Charge_refund_def
  Customer_create_def Customer_retrieve_def Customer_reload_def Customer_update_def
  Customer_destroy_def
  Transfer_create_def Transfer_retrieve_def Transfer_reload_def Transfer_update_def
  Transfer_destroy_def Transaction_retrieve_def Transaction_reload_def

lemma unset_perform:
  assumes "credential e x = None"
  shows "snd (perform e x w) = w"
    and "\<exists>err. fst (perform e x w) = Inl err"
    and "path_readable x \<Longrightarrow> fst (perform e x w) = Inl (AttributeError ''API key is not set.'')"
  using assms
  by (cases x;
      simp add: binding_defs giving_def as_object_of_def reload_data_of_def unset_main
        unset_vault has_item_def has_attr_def Let_def split: sum.splits)+

section \<open>Properties of the resource bindings\<close>

text \<open>
  Claim C2. With the secret key unset, \<^verbatim>\<open>_MainResource._request\<close> raises the
  configuration error in the construction of the requestor and makes no transport
  invocation; so does \<^verbatim>\<open>_VaultResource._request\<close> with the public key unset. Hence
  every operation whose credential is unset fails and leaves the list of transport
  invocations as it was; the failure is the configuration error whenever the record of
  the operation holds the field its path is read from (the class methods read none).
\<close>

theorem unset_credential_no_network:
  "(api_secret e = None \<longrightarrow>
      MainResource_request e method p payload w
        = (Inl (AttributeError ''API key is not set.''), w))
   \<and> (api_public e = None \<longrightarrow>
      VaultResource_request e method p payload w
        = (Inl (AttributeError ''API key is not set.''), w))
   \<and> (credential e x = None \<longrightarrow>
        snd (perform e x w) = w
      \<and> (\<exists>err. fst (perform e x w) = Inl err)
      \<and> (path_readable x \<longrightarrow>
            fst (perform e x w) = Inl (AttributeError ''API key is not set.'')))"
  using unset_main [of e "method" p payload w] unset_vault [of e "method" p payload w]
    unset_perform [of e x w]
  by blast

theorem unset_credential_no_network_witness:
  "credential example_env (TokenCreate [(''number'', PStr ''4242424242424242'')]) = None
   \<and> path_readable (TokenCreate [(''number'', PStr ''4242424242424242'')])
   \<and> perform example_env (TokenCreate [(''number'', PStr ''4242424242424242'')]) []
       = (Inl (AttributeError ''API key is not set.''), [])
   \<and> credential (example_env\<lparr>api_secret := None\<rparr>) (ChargeReload example_charge) = None
   \<and> path_readable (ChargeReload example_charge)
   \<and> perform (example_env\<lparr>api_secret := None\<rparr>) (ChargeReload example_charge) []
       = (Inl (AttributeError ''API key is not set.''), [])"
proof -
  let ?t = "TokenCreate [(''number'', PStr ''4242424242424242'')]"
  let ?e = "example_env\<lparr>api_secret := None\<rparr>"
  have c1: "credential example_env ?t = None" by (simp add: example_env_def)
  have c2: "credential ?e (ChargeReload example_charge) = None" by simp
  have p1: "path_readable ?t" by simp
  have p2: "path_readable (ChargeReload example_charge)"
    by (simp add: has_item_def attr_item_def example_charge_def)
  from unset_credential_no_network [where w = "[]" and e = example_env and x = ?t] c1 p1
  have r1: "perform example_env ?t [] = (Inl (AttributeError ''API key is not set.''), [])"
    by (simp add: prod_eq_iff)
  from unset_credential_no_network [where w = "[]" and e = ?e and x = "ChargeReload example_charge"] c2 p2
  have r2: "perform ?e (ChargeReload example_charge) []
              = (Inl (AttributeError ''API key is not set.''), [])"
    by (simp add: prod_eq_iff)
  from c1 c2 p1 p2 r1 r2 show ?thesis by blast
qed

text \<open>The field is read before the request is made: a charge without an identifier
  fails on the lookup, again without any transport invocation.\<close>

lemma missing_identifier_first:
  "perform (example_env\<lparr>api_secret := None\<rparr>) (ChargeReload (Base_init Charge)) []
     = (Inl (KeyError ''id''), [])"
  by (simp add: Charge_reload_def giving_def attr_item_def Base_init_def)

section \<open>Properties of path construction\<close>


lemma split_on_not_Nil: "split_on sep s \<noteq> []"
  by (induction s) (auto split: list.splits)

lemma split_on_Cons:
  "split_on sep (c # cs) =
     (if c = sep then [] # split_on sep cs
      else (c # hd (split_on sep cs)) # tl (split_on sep cs))"
  using split_on_not_Nil [of sep cs] by (cases "split_on sep cs") auto

lemma join_Cons_Cons: "join sep ((c # q) # qs) = c # join sep (q # qs)"
  by (cases qs) auto

lemma join_split_on: "join [sep] (split_on sep s) = s"
proof (induction s)
  case Nil
  then show ?case by simp
next
  case (Cons c cs)
  obtain q qs where r: "split_on sep cs = q # qs"
    using split_on_not_Nil [of sep cs] by (cases "split_on sep cs") auto
  with Cons show ?case by (auto simp: join_Cons_Cons)
qed

lemma set_split_on:
  "c \<in> set s \<Longrightarrow> c \<noteq> sep \<Longrightarrow> \<exists>q \<in> set (split_on sep s). c \<in> set q"
proof (induction s)
  case Nil
  then show ?case by simp
next
  case (Cons a s)
  obtain q qs where r: "split_on sep s = q # qs"
    using split_on_not_Nil [of sep s] by (cases "split_on sep s") auto
  with Cons show ?case by (auto split: if_splits)
qed

lemma hd_split_on: "hd (split_on sep s) = takeWhile (\<lambda>x. x \<noteq> sep) s"
  by (induction s) (simp_all add: split_on_Cons del: split_on.simps(2))

lemma split_on_free: "sep \<notin> set p \<Longrightarrow> split_on sep p = [p]"
  by (induction p) auto

lemma split_on_append: "sep \<notin> set p \<Longrightarrow> split_on sep (p @ sep # r) = p # split_on sep r"
proof (induction p)
  case Nil
  then show ?case
    using split_on_not_Nil [of sep r] by (cases "split_on sep r") auto
next
  case (Cons a p)
  then show ?case by auto
qed

lemma split_on_join:
  "xs \<noteq> [] \<Longrightarrow> list_all (\<lambda>s. sep \<notin> set s) xs \<Longrightarrow> split_on sep (join [sep] xs) = xs"
proof (induction xs)
  case Nil
  then show ?case by simp
next
  case (Cons p ps)
  then show ?case
    by (cases ps) (simp_all add: split_on_free split_on_append)
qed

text \<open>The stripping and the removal of unsafe characters leave a string without space
  and control characters as it is.\<close>

lemma unsafe_is_c0: "unsafe_byte c \<Longrightarrow> c0_control_or_space c"
  by (auto simp: unsafe_byte_def c0_control_or_space_def)

lemma remove_unsafe_clean:
  "list_all (\<lambda>c. \<not> c0_control_or_space c) s \<Longrightarrow> remove_unsafe s = s"
  unfolding remove_unsafe_def
  by (intro filter_True) (auto simp: list_all_iff dest: unsafe_is_c0)

lemma lstrip_clean:
  "list_all (\<lambda>c. \<not> c0_control_or_space c) s \<Longrightarrow> lstrip_c0 s = s"
  by (cases s) (auto simp: lstrip_c0_def)

lemma strip_clean:
  "list_all (\<lambda>c. \<not> c0_control_or_space c) s \<Longrightarrow> strip_c0 s = s"
proof -
  assume clean: "list_all (\<lambda>c. \<not> c0_control_or_space c) s"
  then have 1: "dropWhile c0_control_or_space s = s"
    by (cases s) auto
  from clean have "list_all (\<lambda>c. \<not> c0_control_or_space c) (rev s)"
    by (simp add: list_all_iff)
  then have 2: "dropWhile c0_control_or_space (rev s) = rev s"
    by (cases "rev s") auto
  show ?thesis by (simp add: strip_c0_def 1 2)
qed

lemma slash_not_c0: "\<not> c0_control_or_space CHR ''/''"
  by (simp add: c0_control_or_space_def)

text \<open>A relative path whose components are plain has no scheme, no network location,
  no query, no fragment and no parameters.\<close>

lemma plain_components:
  assumes "list_all plain_segment (split_on CHR ''/'' rel)"
  shows "rel \<noteq> []" and "take 1 rel \<noteq> ''/''" and "take 2 rel \<noteq> ''//''"
    and "CHR '':'' \<notin> set rel" and "CHR ''?'' \<notin> set rel" and "CHR ''#'' \<notin> set rel"
    and "CHR '';'' \<notin> set rel"
    and "list_all (\<lambda>c. \<not> c0_control_or_space c) rel"
proof -
  show ne: "rel \<noteq> []" using assms by (auto simp: plain_segment_def)
  have "hd (split_on CHR ''/'' rel) \<noteq> []"
    using assms split_on_not_Nil [of "CHR ''/''" rel]
    by (cases "split_on CHR ''/'' rel") (auto simp: plain_segment_def)
  then have "hd rel \<noteq> CHR ''/''"
    using ne by (cases rel) (auto simp: hd_split_on simp del: split_on.simps)
  with ne show "take 1 rel \<noteq> ''/''" and "take 2 rel \<noteq> ''//''"
    by (cases rel; simp)+
  have no: "c \<notin> set rel" if "c \<in> set '':?#;''" for c
  proof
    assume "c \<in> set rel"
    moreover from that have "c \<noteq> CHR ''/''" by auto
    ultimately obtain q where "q \<in> set (split_on CHR ''/'' rel)" "c \<in> set q"
      using set_split_on by blast
    with assms that show False
      by (auto simp: plain_segment_def list_all_iff)
  qed
  show "CHR '':'' \<notin> set rel" "CHR ''?'' \<notin> set rel" "CHR ''#'' \<notin> set rel"
    "CHR '';'' \<notin> set rel"
    by (rule no, simp)+
  have "\<not> c0_control_or_space c" if c: "c \<in> set rel" for c
  proof (cases "c = CHR ''/''")
    case True
    then show ?thesis by (simp add: slash_not_c0)
  next
    case False
    with c obtain q where "q \<in> set (split_on CHR ''/'' rel)" "c \<in> set q"
      using set_split_on by blast
    with assms show ?thesis
      by (auto simp: plain_segment_def list_all_iff)
  qed
  then show "list_all (\<lambda>c. \<not> c0_control_or_space c) rel"
    by (simp add: list_all_iff)
qed

lemma urlparse_relative:
  assumes "take 2 rel \<noteq> ''//''" "CHR '':'' \<notin> set rel" "CHR ''?'' \<notin> set rel"
    "CHR ''#'' \<notin> set rel" "CHR '';'' \<notin> set rel"
    and "list_all (\<lambda>c. \<not> c0_control_or_space c) rel"
    and "list_all (\<lambda>c. \<not> c0_control_or_space c) scheme"
  shows "urlparse ck rel scheme = Inr (scheme, [], rel, [], [], [])"
proof -
  from assms(6) have rel: "remove_unsafe (lstrip_c0 rel) = rel"
    by (simp add: lstrip_clean remove_unsafe_clean)
  from assms(7) have sch: "remove_unsafe (strip_c0 scheme) = scheme"
    by (simp add: strip_clean remove_unsafe_clean)
  from assms(1-5) have "urlsplit ck rel scheme = Inr (scheme, [], rel, [], [])"
    unfolding urlsplit_def rel sch by simp
  with assms(5) show ?thesis
    by (simp add: urlparse_def)
qed

lemma web_scheme:
  assumes "scheme = ''http'' \<or> scheme = ''https''"
  shows "before CHR '':'' (scheme @ ''://'' @ r) = scheme"
    and "after CHR '':'' (scheme @ ''://'' @ r) = ''//'' @ r"
    and "list_all (\<lambda>c. c \<in> set scheme_chars) scheme"
    and "map lower_char scheme = scheme"
    and "scheme \<noteq> []"
    and "scheme \<in> set uses_params"
    and "scheme \<in> set uses_relative"
    and "scheme \<in> set uses_netloc"
    and "list_all (\<lambda>c. \<not> c0_control_or_space c) scheme"
    and "ascii_alpha (hd scheme)"
proof -
  from assms show "before CHR '':'' (scheme @ ''://'' @ r) = scheme"
    by (elim disjE) (simp_all add: before_def)
  from assms show "after CHR '':'' (scheme @ ''://'' @ r) = ''//'' @ r"
    by (elim disjE) (simp_all add: after_def)
  from assms show "list_all (\<lambda>c. c \<in> set scheme_chars) scheme"
    by (elim disjE) (simp_all add: scheme_chars_def)
  from assms show "map lower_char scheme = scheme"
    by (elim disjE) (simp_all add: lower_char_def)
  from assms show "scheme \<noteq> []" by auto
  from assms show "scheme \<in> set uses_params"
    by (elim disjE) (simp_all add: uses_params_def)
  from assms show "scheme \<in> set uses_relative"
    by (elim disjE) (simp_all add: uses_relative_def)
  from assms show "scheme \<in> set uses_netloc"
    by (elim disjE) (simp_all add: uses_netloc_def)
  from assms show "list_all (\<lambda>c. \<not> c0_control_or_space c) scheme"
    by (elim disjE) (simp_all add: c0_control_or_space_def)
  from assms show "ascii_alpha (hd scheme)"
    by (elim disjE) (simp_all add: ascii_alpha_def)
qed

lemma urlsplit_base:
  assumes sch: "scheme = ''http'' \<or> scheme = ''https''" and h: "plain_host host"
    and t: "tail = [] \<or> tail = ''/''"
  shows "urlsplit ck (scheme @ ''://'' @ host @ tail) [] = Inr (scheme, host, tail, [], [])"
proof -
  let ?P = "\<lambda>c. c \<notin> set ''/?#''"
  let ?url = "scheme @ ''://'' @ host @ tail"
  note ws = web_scheme(1,2) [OF sch, of "host @ tail"] web_scheme(3,4,5,10) [OF sch]
  from h have host: "\<And>c. c \<in> set host \<Longrightarrow> ?P c"
    and br: "CHR ''['' \<notin> set host" "CHR '']'' \<notin> set host"
    and ascii: "list_all is_ascii host"
    and hclean: "list_all (\<lambda>c. \<not> c0_control_or_space c) host"
    by (auto simp: plain_host_def list_all_iff)
  from t have tclean: "list_all (\<lambda>c. \<not> c0_control_or_space c) (''://'' @ host @ tail)"
    using hclean by (auto simp: c0_control_or_space_def)
  with web_scheme(9) [OF sch]
  have "list_all (\<lambda>c. \<not> c0_control_or_space c) ?url"
    by (simp only: list_all_append)
  then have url0: "remove_unsafe (lstrip_c0 ?url) = ?url"
    by (simp only: lstrip_clean remove_unsafe_clean)
  have scheme0: "remove_unsafe (strip_c0 []) = []"
    by (simp add: remove_unsafe_def strip_c0_def)
  from t host have tw: "takeWhile ?P (host @ tail) = host"
    by (auto simp: takeWhile_append2)
  from t host have dw: "dropWhile ?P (host @ tail) = tail"
    by (auto simp: dropWhile_append2)
  have colon: "CHR '':'' \<in> set ?url" by simp
  have sn: "splitnetloc (''//'' @ host @ tail) = (host, tail)"
    using tw dw by (simp add: splitnetloc_def)
  have tk: "take 2 (''//'' @ host @ tail) = ''//''" by simp
  have tail: "CHR ''#'' \<notin> set tail" "CHR ''?'' \<notin> set tail"
    using t by auto
  show ?thesis
    unfolding urlsplit_def url0 scheme0
    using colon tail br ascii
    by (simp add: ws sn tk del: set_append append_Cons append_Nil)
qed

lemma urlparse_base:
  assumes sch: "scheme = ''http'' \<or> scheme = ''https''" and h: "plain_host host"
    and t: "tail = [] \<or> tail = ''/''"
  shows "urlparse ck (scheme @ ''://'' @ host @ tail) []
           = Inr (scheme, host, tail, [], [], [])"
proof -
  from t have "CHR '';'' \<notin> set tail" by auto
  then show ?thesis
    unfolding urlparse_def urlsplit_base [OF assms] by simp
qed

lemma filter_middle_root:
  assumes t: "tail = [] \<or> tail = ''/''" and ps: "ps \<noteq> []" "list_all (\<lambda>s. s \<noteq> []) ps"
  shows "filter_middle
           ((if last (split_on CHR ''/'' tail) \<noteq> [] then butlast (split_on CHR ''/'' tail)
             else split_on CHR ''/'' tail) @ ps) = [] # ps"
proof -
  obtain q qs where q: "ps = q # qs" using ps(1) by (cases ps) auto
  have keep: "filter (\<lambda>s. s \<noteq> []) (butlast ps) = butlast ps"
    using ps(2) by (intro filter_True) (auto simp: list_all_iff dest: in_set_butlastD)
  from t show ?thesis
  proof
    assume "tail = []"
    then show ?thesis
      using keep by (simp add: q)
  next
    assume "tail = ''/''"
    then show ?thesis
      using keep by (simp add: q)
  qed
qed

lemma fold_resolve_plain:
  "list_all (\<lambda>s. s \<noteq> ''.'' \<and> s \<noteq> ''..'') xs \<Longrightarrow> fold resolve_segment xs acc = acc @ xs"
  by (induction xs arbitrary: acc) (auto simp: resolve_segment_def)

lemma join_root: "ps \<noteq> [] \<Longrightarrow> join ''/'' ([] # ps) = ''/'' @ join ''/'' ps"
  by (cases ps) auto

lemma urlunparse_web:
  assumes sch: "scheme = ''http'' \<or> scheme = ''https''"
  shows "urlunparse scheme host (''/'' @ rel) [] [] [] = scheme @ ''://'' @ host @ ''/'' @ rel"
  using web_scheme(5,8) [OF sch] by (simp add: urlunparse_def urlunsplit_def)

text \<open>The resolution loop leaves plain components as they are.\<close>

lemma resolve_plain:
  assumes t: "tail = [] \<or> tail = ''/''" and ps: "list_all plain_segment (split_on CHR ''/'' rel)"
  shows "join ''/''
           (fold resolve_segment ([] # split_on CHR ''/'' rel) []) = ''/'' @ rel"
    and "last ([] # split_on CHR ''/'' rel) \<noteq> ''.''"
    and "last ([] # split_on CHR ''/'' rel) \<noteq> ''..''"
proof -
  let ?ps = "split_on CHR ''/'' rel"
  have ne: "?ps \<noteq> []" by (rule split_on_not_Nil)
  from ps have nodots: "list_all (\<lambda>s. s \<noteq> ''.'' \<and> s \<noteq> ''..'') ([] # ?ps)"
    by (auto simp: plain_segment_def list_all_iff)
  have "fold resolve_segment ([] # ?ps) [] = [] # ?ps"
    using fold_resolve_plain [OF nodots, of "[]"] by simp
  then show "join ''/'' (fold resolve_segment ([] # ?ps) []) = ''/'' @ rel"
    using join_root [OF ne] join_split_on [of "CHR ''/''" rel] by simp
  from ps ne have "plain_segment (last ?ps)"
    by (auto simp: list_all_iff)
  with ne show "last ([] # ?ps) \<noteq> ''.''" and "last ([] # ?ps) \<noteq> ''..''"
    by (auto simp: plain_segment_def)
qed

lemma urljoin_plain:
  assumes sch: "scheme = ''http'' \<or> scheme = ''https''" and h: "plain_host host"
    and t: "tail = [] \<or> tail = ''/''"
    and ps: "list_all plain_segment (split_on CHR ''/'' rel)"
  shows "urljoin ck (scheme @ ''://'' @ host @ tail) rel
           = Inr (scheme @ ''://'' @ host @ ''/'' @ rel)"
proof -
  let ?ps = "split_on CHR ''/'' rel"
  note pc = plain_components [OF ps]
  note ws = web_scheme(5,7,8) [OF sch]
  have base: "urlparse ck (scheme @ ''://'' @ host @ tail) []
                = Inr (scheme, host, tail, [], [], [])"
    by (rule urlparse_base [OF sch h t])
  have url: "urlparse ck rel scheme = Inr (scheme, [], rel, [], [], [])"
    by (rule urlparse_relative [OF pc(3,4,5,6,7,8) web_scheme(9) [OF sch]])
  from ps have nonempty: "list_all (\<lambda>s. s \<noteq> []) ?ps"
    by (auto simp: plain_segment_def list_all_iff)
  have segs: "filter_middle
           ((if last (split_on CHR ''/'' tail) \<noteq> [] then butlast (split_on CHR ''/'' tail)
             else split_on CHR ''/'' tail) @ ?ps) = [] # ?ps"
    by (rule filter_middle_root [OF t split_on_not_Nil nonempty])
  note rp = resolve_plain [OF t ps]
  from rp(1) have rp1: "join ''/''
      (fold resolve_segment (split_on CHR ''/'' rel) (resolve_segment [] [])) = ''/'' @ rel"
    by simp
  have nb: "scheme @ ''://'' @ host @ tail \<noteq> []" using ws(1) by simp
  show ?thesis
    unfolding urljoin_def base url
    using nb pc(1,2) ws rp(2,3)
    by (simp add: url Let_def segs rp1 urlunparse_web [OF sch]
        del: append_Cons append_Nil split_on.simps fold_simps last.simps)
qed

lemma urljoin_rooted:
  assumes sch: "scheme = ''http'' \<or> scheme = ''https''" and h: "plain_host host"
    and t: "tail = [] \<or> tail = ''/''"
    and ps: "list_all plain_segment (split_on CHR ''/'' rel)"
  shows "urljoin ck (scheme @ ''://'' @ host @ tail) (''/'' @ rel)
           = Inr (scheme @ ''://'' @ host @ ''/'' @ rel)"
proof -
  note pc = plain_components [OF ps]
  note ws = web_scheme(5,7,8) [OF sch]
  have base: "urlparse ck (scheme @ ''://'' @ host @ tail) []
                = Inr (scheme, host, tail, [], [], [])"
    by (rule urlparse_base [OF sch h t])
  from pc(2) have two: "take 2 (''/'' @ rel) \<noteq> ''//''" by (cases rel) auto
  have url: "urlparse ck (''/'' @ rel) scheme = Inr (scheme, [], ''/'' @ rel, [], [], [])"
    using pc(4,5,6,7,8) web_scheme(9) [OF sch]
    by (intro urlparse_relative [OF two]) (simp_all add: slash_not_c0)
  note rp = resolve_plain [OF t ps]
  from rp(1) have rp1: "join ''/''
      (fold resolve_segment (split_on CHR ''/'' rel) (resolve_segment [] [])) = ''/'' @ rel"
    by simp
  have nb: "scheme @ ''://'' @ host @ tail \<noteq> []" using ws(1) by simp
  have sp: "split_on CHR ''/'' (''/'' @ rel) = [] # split_on CHR ''/'' rel"
    by (simp add: split_on_Cons del: split_on.simps(2))
  have tk: "take 1 (''/'' @ rel) = ''/''" by simp
  show ?thesis
    unfolding urljoin_def base
    using nb ws rp(2,3)
    by (simp add: url Let_def sp tk rp1 urlunparse_web [OF sch]
        del: append_Cons append_Nil split_on.simps fold_simps last.simps)
qed

lemma plain_each:
  assumes "xs \<noteq> []" "list_all plain_segment xs"
  shows "list_all plain_segment (split_on CHR ''/'' (join ''/'' xs))"
proof -
  from assms(2) have "list_all (\<lambda>s. CHR ''/'' \<notin> set s) xs"
    by (auto simp: plain_segment_def list_all_iff)
  from split_on_join [OF assms(1) this] assms(2) show ?thesis by simp
qed

text \<open>Three resolutions of \<^verbatim>\<open>urljoin\<close> that are not the base followed by the path.\<close>

lemma urljoin_scheme_in_path:
  "urljoin ck ''https://api.example.com/'' ''a:b'' = Inr ''a:b''"
  by code_simp

lemma urljoin_dot_segment:
  "urljoin ck ''https://api.example.com/'' ''charges/../account''
     = Inr ''https://api.example.com/account''"
  by code_simp

lemma urljoin_leading_space:
  "urljoin ck ''https://api.example.com/'' '' charges'' = Inr ''https://api.example.com/charges''"
  by code_simp

text \<open>
  Claim C7, as stated for every path argument, fails when the joined path is not a
  plain relative path. A segment that names a scheme comes back as it is, without the
  base and without a separating slash; a dot segment removes the segment before it; a
  leading space is stripped from the path.
\<close>

theorem build_path_not_concatenation:
  "build_path example_env
     \<lparr>api_key = ''skey_test'', api_base = ''https://api.example.com/''\<rparr>
     (Single (PStr ''a:b''))
     = Inr ''a:b''
   \<and> build_path example_env
       \<lparr>api_key = ''skey_test'', api_base = ''https://api.example.com/''\<rparr>
       (Segments [ORaw (PStr ''charges''), ORaw (PStr ''..''), ORaw (PStr ''account'')])
     = Inr ''https://api.example.com/account''
   \<and> build_path example_env
       \<lparr>api_key = ''skey_test'', api_base = ''https://api.example.com/''\<rparr>
       (Single (PStr '' charges''))
     = Inr ''https://api.example.com/charges''"
  by (simp add: build_path_def path_segments_def py_str_def urljoin_scheme_in_path
      urljoin_dot_segment urljoin_leading_space)

text \<open>
  Claim C7, amended. A single string and a single value that cannot be iterated are
  each one segment; a tuple gives its elements as segments; every segment is rendered
  by \<^verbatim>\<open>str\<close>, the renderings are joined with \<^verbatim>\<open>/\<close> and the result is resolved by
  \<^verbatim>\<open>urljoin\<close> against the base URL. For a base URL \<^verbatim>\<open>http://host\<close> or
  \<^verbatim>\<open>https://host\<close>, with or without a closing slash, whose host is plain, the URL
  built is the base, exactly one slash, and the joined path: when there is at least one
  segment and every rendered segment is plain (not empty, not \<^verbatim>\<open>.\<close> or \<^verbatim>\<open>..\<close>, free
  of \<^verbatim>\<open>/ : ? # ;\<close>, of the space and of the control characters); more generally when
  the components of the joined path between its slashes are plain; and also when the
  joined path begins with a slash and its components after that slash are plain, in
  which case that leading slash is the separating one. Any other path is resolved by
  the rules of \<^verbatim>\<open>urljoin\<close>, which may drop the base, a segment or a character.
\<close>

theorem build_path_joins:
  "path_segments (Single (PStr s)) = [ORaw (PStr s)]
   \<and> (\<not> is_list v \<longrightarrow> \<not> is_dict v \<longrightarrow> path_segments (Single v) = [ORaw v])
   \<and> path_segments (Segments segs) = segs
   \<and> ((scheme = ''http'' \<or> scheme = ''https'') \<longrightarrow> plain_host host \<longrightarrow>
       (tail = [] \<or> tail = ''/'') \<longrightarrow> api_base self = scheme @ ''://'' @ host @ tail \<longrightarrow>
         (path_segments p \<noteq> [] \<longrightarrow>
          list_all (\<lambda>x. plain_segment (py_str e x)) (path_segments p) \<longrightarrow>
            build_path e self p =
              Inr (scheme @ ''://'' @ host @ ''/''
                     @ join ''/'' (map (py_str e) (path_segments p))))
       \<and> (list_all plain_segment
             (split_on CHR ''/'' (join ''/'' (map (py_str e) (path_segments p)))) \<longrightarrow>
            build_path e self p =
              Inr (scheme @ ''://'' @ host @ ''/''
                     @ join ''/'' (map (py_str e) (path_segments p))))
       \<and> (\<forall>rel. join ''/'' (map (py_str e) (path_segments p)) = ''/'' @ rel \<longrightarrow>
             list_all plain_segment (split_on CHR ''/'' rel) \<longrightarrow>
               build_path e self p = Inr (scheme @ ''://'' @ host @ ''/'' @ rel)))"
proof -
  have forms: "path_segments (Single (PStr s)) = [ORaw (PStr s)]"
    "\<not> is_list v \<longrightarrow> \<not> is_dict v \<longrightarrow> path_segments (Single v) = [ORaw v]"
    "path_segments (Segments segs) = segs"
    by (cases v; simp add: path_segments_def)+
  let ?rel = "join ''/'' (map (py_str e) (path_segments p))"
  have main: "build_path e self p = Inr (scheme @ ''://'' @ host @ ''/'' @ ?rel)"
    if "scheme = ''http'' \<or> scheme = ''https''" "plain_host host" "tail = [] \<or> tail = ''/''"
      "api_base self = scheme @ ''://'' @ host @ tail"
      "list_all plain_segment (split_on CHR ''/'' ?rel)"
    using urljoin_plain [OF that(1,2,3,5)] that(4) by (simp only: build_path_def)
  have each: "build_path e self p = Inr (scheme @ ''://'' @ host @ ''/'' @ ?rel)"
    if "scheme = ''http'' \<or> scheme = ''https''" "plain_host host" "tail = [] \<or> tail = ''/''"
      "api_base self = scheme @ ''://'' @ host @ tail"
      "path_segments p \<noteq> []" "list_all (\<lambda>x. plain_segment (py_str e x)) (path_segments p)"
  proof -
    from that(5,6) have "map (py_str e) (path_segments p) \<noteq> []"
      and "list_all plain_segment (map (py_str e) (path_segments p))"
      by (simp_all add: list_all_iff)
    from main [OF that(1,2,3,4) plain_each [OF this]] show ?thesis .
  qed
  have rooted: "build_path e self p = Inr (scheme @ ''://'' @ host @ ''/'' @ rel)"
    if "scheme = ''http'' \<or> scheme = ''https''" "plain_host host" "tail = [] \<or> tail = ''/''"
      "api_base self = scheme @ ''://'' @ host @ tail"
      "?rel = ''/'' @ rel" "list_all plain_segment (split_on CHR ''/'' rel)" for rel
    using urljoin_rooted [OF that(1,2,3,6)] that(4,5) by (simp only: build_path_def)
  from forms main each rooted show ?thesis by blast
qed

lemma str_of_int_42: "str_of_int 42 = ''42''"
  by (simp add: str_of_int_def digit_char_def)

lemma plain_example_host: "plain_host ''api.example.com''"
  by (simp add: plain_host_def c0_control_or_space_def is_ascii_def)

theorem build_path_joins_witness:
  "plain_host ''api.example.com''
   \<and> list_all (\<lambda>x. plain_segment (py_str example_env x))
        [ORaw (PStr ''charges''), ORaw (PStr ''chrg_1''), ORaw (PStr ''capture'')]
   \<and> build_path example_env
        \<lparr>api_key = ''skey_test'', api_base = ''https://api.example.com/''\<rparr>
        (Segments [ORaw (PStr ''charges''), ORaw (PStr ''chrg_1''), ORaw (PStr ''capture'')])
       = Inr ''https://api.example.com/charges/chrg_1/capture''
   \<and> build_path example_env
        \<lparr>api_key = ''skey_test'', api_base = ''https://api.example.com''\<rparr>
        (Single (PInt 42))
       = Inr ''https://api.example.com/42''"
proof -
  let ?segs = "[ORaw (PStr ''charges''), ORaw (PStr ''chrg_1''), ORaw (PStr ''capture'')]"
  let ?r1 = "\<lparr>api_key = ''skey_test'', api_base = ''https://api.example.com/''\<rparr>"
  let ?r2 = "\<lparr>api_key = ''skey_test'', api_base = ''https://api.example.com''\<rparr>"
  have segs: "list_all (\<lambda>x. plain_segment (py_str example_env x)) ?segs"
    by (simp add: py_str_def plain_segment_def c0_control_or_space_def)
  have n: "list_all (\<lambda>x. plain_segment (py_str example_env x)) [ORaw (PInt 42)]"
    by (simp add: py_str_def plain_segment_def str_of_int_42 c0_control_or_space_def)
  have b1: "api_base ?r1 = ''https'' @ ''://'' @ ''api.example.com'' @ ''/''" by simp
  have b2: "api_base ?r2 = ''https'' @ ''://'' @ ''api.example.com'' @ []" by simp
  from build_path_joins
         [where scheme = "''https''" and host = "''api.example.com''" and tail = "''/''"
            and self = ?r1 and p = "Segments ?segs" and e = example_env]
       plain_example_host segs b1
  have 1: "build_path example_env ?r1 (Segments ?segs)
             = Inr ''https://api.example.com/charges/chrg_1/capture''"
    by (simp add: path_segments_def py_str_def)
  from build_path_joins
         [where scheme = "''https''" and host = "''api.example.com''" and tail = "[]"
            and self = ?r2 and p = "Single (PInt 42)" and e = example_env]
       plain_example_host n b2
  have 2: "build_path example_env ?r2 (Single (PInt 42)) = Inr ''https://api.example.com/42''"
    by (simp add: path_segments_def py_str_def str_of_int_42)
  from plain_example_host segs 1 2 show ?thesis by blast
qed

section \<open>Properties of an update\<close>

lemma changed_with_merge:
  "distinct (map fst kwargs) \<Longrightarrow>
     map_of (changed_with self kwargs) k =
       (case map_of kwargs k of None \<Rightarrow> map_of (changes self) k | Some v \<Rightarrow> Some v)"
  by (simp add: changed_with_def map_of_fold_update map_of_rev_distinct)

lemma patch_reload:
  assumes "api_secret e = Some key"
    and "build_path e \<lparr>api_key = key, api_base = ''https://api.omise.co''\<rparr> p = Inr u"
    and "patched e key w u payload call body"
  shows "reload_data_of self (MainResource_request e PATCH p (Some payload) w)
           = (Inr (self\<lparr>attributes := body, changeset := []\<rparr>), w @ [call])"
    and "call_verb call = PATCH" and "call_url call = u" and "call_data call = payload"
  using assms
  by (auto simp: patched_def success_body_def MainResource_request_def Request_init_def
      send_def Let_def reload_data_of_def reload_data_distinct transport_call_def
      build_payload_def build_headers_def api_main_def api_compat_def)

text \<open>The URL of an instance path on the main host, and of a location.\<close>

lemma plain_main_host: "plain_host ''api.omise.co''"
  by (simp add: plain_host_def c0_control_or_space_def is_ascii_def)

lemma main_instance_url:
  assumes "plain_segment kind" "plain_segment s"
  shows "build_path e \<lparr>api_key = key, api_base = ''https://api.omise.co''\<rparr>
           (Segments [ORaw (PStr kind), ORaw (PStr s)])
         = Inr (''https://api.omise.co/'' @ kind @ ''/'' @ s)"
proof -
  have "list_all plain_segment (split_on CHR ''/'' (join ''/'' [kind, s]))"
    using assms by (intro plain_each) simp_all
  from urljoin_plain [where scheme = "''https''" and host = "''api.omise.co''" and tail = "[]"
      and ck = "url_checks e", OF _ plain_main_host _ this]
  show ?thesis
    by (simp add: build_path_def path_segments_def py_str_def)
qed

lemma plain_kinds:
  "plain_segment ''charges''" "plain_segment ''customers''" "plain_segment ''transfers''"
  by (simp_all add: plain_segment_def c0_control_or_space_def)

lemma main_location_url:
  assumes "list_all plain_segment (split_on CHR ''/'' rel)"
  shows "build_path e \<lparr>api_key = key, api_base = ''https://api.omise.co''\<rparr>
           (Single (PStr (''/'' @ rel)))
         = Inr (''https://api.omise.co/'' @ rel)"
  using urljoin_rooted [where scheme = "''https''" and host = "''api.omise.co''" and tail = "[]"
      and ck = "url_checks e", OF _ plain_main_host _ assms]
  by (simp add: build_path_def path_segments_def py_str_def)

text \<open>
  Claim C9. With the secret key set, an update of a charge, a customer, a transfer or a
  card sends as its payload the pending changes of the record merged with the fields
  passed (each name once), a field passed winning over a pending change of the same
  name. The request is a PATCH on the main host of the instance path: the segments
  \<^verbatim>\<open>charges\<close>, \<^verbatim>\<open>customers\<close> or \<^verbatim>\<open>transfers\<close> and the identifier of the record, or
  the location of the card. When the transport answers that PATCH with a body that is
  not an error payload, the update makes exactly that one invocation, replaces the
  whole internal mapping of the record by the body, empties its set of changes, and
  returns the record. For an identifier that is a plain segment the URL is
  \<^verbatim>\<open>https://api.omise.co/charges/\<close>, \<^verbatim>\<open>.../customers/\<close> or \<^verbatim>\<open>.../transfers/\<close>
  followed by the identifier; for a location that is a slash followed by plain
  components it is \<^verbatim>\<open>https://api.omise.co\<close> followed by the location.
\<close>

theorem update_merges_and_reloads:
  "api_secret e = Some key \<longrightarrow> distinct (map fst kwargs) \<longrightarrow>
     (\<forall>k. map_of (changed_with self kwargs) k =
            (case map_of kwargs k of None \<Rightarrow> map_of (changes self) k | Some v \<Rightarrow> Some v))
   \<and> (\<forall>i u. attr_item self ''id'' = Inr i \<longrightarrow>
          build_path e \<lparr>api_key = key, api_base = ''https://api.omise.co''\<rparr>
            (Segments [ORaw (PStr ''charges''), ORaw i]) = Inr u \<longrightarrow>
          patched e key w u (changed_with self kwargs) call body
          \<longrightarrow> Charge_update e self kwargs w
                = (Inr (self\<lparr>attributes := body, changeset := []\<rparr>), w @ [call])
              \<and> call_verb call = PATCH \<and> call_url call = u
              \<and> call_data call = changed_with self kwargs)
   \<and> (\<forall>i u. attr_item self ''id'' = Inr i \<longrightarrow>
          build_path e \<lparr>api_key = key, api_base = ''https://api.omise.co''\<rparr>
            (Segments [ORaw (PStr ''customers''), ORaw i]) = Inr u \<longrightarrow>
          patched e key w u (changed_with self kwargs) call body
          \<longrightarrow> Customer_update e self kwargs w
                = (Inr (self\<lparr>attributes := body, changeset := []\<rparr>), w @ [call])
              \<and> call_verb call = PATCH \<and> call_url call = u
              \<and> call_data call = changed_with self kwargs)
   \<and> (\<forall>i u. Base_getattr ''id'' self = Inr i \<longrightarrow>
          build_path e \<lparr>api_key = key, api_base = ''https://api.omise.co''\<rparr>
            (Segments [ORaw (PStr ''transfers''), i]) = Inr u \<longrightarrow>
          patched e key w u (changed_with self kwargs) call body
          \<longrightarrow> Transfer_update e self kwargs w
                = (Inr (self\<lparr>attributes := body, changeset := []\<rparr>), w @ [call])
              \<and> call_verb call = PATCH \<and> call_url call = u
              \<and> call_data call = changed_with self kwargs)
   \<and> (\<forall>loc u. attr_item self ''location'' = Inr loc \<longrightarrow>
          build_path e \<lparr>api_key = key, api_base = ''https://api.omise.co''\<rparr>
            (Single loc) = Inr u \<longrightarrow>
          patched e key w u (changed_with self kwargs) call body
          \<longrightarrow> Card_update e self kwargs w
                = (Inr (self\<lparr>attributes := body, changeset := []\<rparr>), w @ [call])
              \<and> call_verb call = PATCH \<and> call_url call = u
              \<and> call_data call = changed_with self kwargs)
   \<and> (\<forall>s. plain_segment s \<longrightarrow>
          build_path e \<lparr>api_key = key, api_base = ''https://api.omise.co''\<rparr>
            (Segments [ORaw (PStr ''charges''), ORaw (PStr s)])
            = Inr (''https://api.omise.co/charges/'' @ s)
        \<and> build_path e \<lparr>api_key = key, api_base = ''https://api.omise.co''\<rparr>
            (Segments [ORaw (PStr ''customers''), ORaw (PStr s)])
            = Inr (''https://api.omise.co/customers/'' @ s)
        \<and> build_path e \<lparr>api_key = key, api_base = ''https://api.omise.co''\<rparr>
            (Segments [ORaw (PStr ''transfers''), ORaw (PStr s)])
            = Inr (''https://api.omise.co/transfers/'' @ s))
   \<and> (\<forall>rel. list_all plain_segment (split_on CHR ''/'' rel) \<longrightarrow>
          build_path e \<lparr>api_key = key, api_base = ''https://api.omise.co''\<rparr>
            (Single (PStr (''/'' @ rel)))
            = Inr (''https://api.omise.co/'' @ rel))"
proof (intro impI)
  assume key: "api_secret e = Some key" and kw: "distinct (map fst kwargs)"
  let ?r = "\<lparr>api_key = key, api_base = ''https://api.omise.co''\<rparr>"
  note pr = patch_reload [OF key, where w = w and payload = "changed_with self kwargs"
      and call = call and body = body]
  have 1: "\<forall>k. map_of (changed_with self kwargs) k =
            (case map_of kwargs k of None \<Rightarrow> map_of (changes self) k | Some v \<Rightarrow> Some v)"
    using changed_with_merge [OF kw] by blast
  have 2: "Charge_update e self kwargs w
                = (Inr (self\<lparr>attributes := body, changeset := []\<rparr>), w @ [call])
              \<and> call_verb call = PATCH \<and> call_url call = u
              \<and> call_data call = changed_with self kwargs"
    if "attr_item self ''id'' = Inr i"
      "build_path e ?r (Segments [ORaw (PStr ''charges''), ORaw i]) = Inr u"
      "patched e key w u (changed_with self kwargs) call body" for i u
    using pr [OF that(2,3)] that(1)
    by (simp add: Charge_update_def Charge_instance_path_def)
  have 3: "Customer_update e self kwargs w
                = (Inr (self\<lparr>attributes := body, changeset := []\<rparr>), w @ [call])
              \<and> call_verb call = PATCH \<and> call_url call = u
              \<and> call_data call = changed_with self kwargs"
    if "attr_item self ''id'' = Inr i"
      "build_path e ?r (Segments [ORaw (PStr ''customers''), ORaw i]) = Inr u"
      "patched e key w u (changed_with self kwargs) call body" for i u
    using pr [OF that(2,3)] that(1)
    by (simp add: Customer_update_def Customer_instance_path_def)
  have 4: "Transfer_update e self kwargs w
                = (Inr (self\<lparr>attributes := body, changeset := []\<rparr>), w @ [call])
              \<and> call_verb call = PATCH \<and> call_url call = u
              \<and> call_data call = changed_with self kwargs"
    if "Base_getattr ''id'' self = Inr i"
      "build_path e ?r (Segments [ORaw (PStr ''transfers''), i]) = Inr u"
      "patched e key w u (changed_with self kwargs) call body" for i u
    using pr [OF that(2,3)] that(1)
    by (simp add: Transfer_update_def Transfer_instance_path_def)
  have 5: "Card_update e self kwargs w
                = (Inr (self\<lparr>attributes := body, changeset := []\<rparr>), w @ [call])
              \<and> call_verb call = PATCH \<and> call_url call = u
              \<and> call_data call = changed_with self kwargs"
    if "attr_item self ''location'' = Inr loc"
      "build_path e ?r (Single loc) = Inr u"
      "patched e key w u (changed_with self kwargs) call body" for loc u
    using pr [OF that(2,3)] that(1)
    by (simp add: Card_update_def)
  have 6: "build_path e ?r (Segments [ORaw (PStr ''charges''), ORaw (PStr s)])
            = Inr (''https://api.omise.co/charges/'' @ s)
        \<and> build_path e ?r (Segments [ORaw (PStr ''customers''), ORaw (PStr s)])
            = Inr (''https://api.omise.co/customers/'' @ s)
        \<and> build_path e ?r (Segments [ORaw (PStr ''transfers''), ORaw (PStr s)])
            = Inr (''https://api.omise.co/transfers/'' @ s)"
    if "plain_segment s" for s
    using main_instance_url [OF plain_kinds(1) that, of e key]
      main_instance_url [OF plain_kinds(2) that, of e key]
      main_instance_url [OF plain_kinds(3) that, of e key]
    by simp
  have 7: "build_path e ?r (Single (PStr (''/'' @ rel))) = Inr (''https://api.omise.co/'' @ rel)"
    if "list_all plain_segment (split_on CHR ''/'' rel)" for rel
    by (rule main_location_url [OF that])
  show "(\<forall>k. map_of (changed_with self kwargs) k =
            (case map_of kwargs k of None \<Rightarrow> map_of (changes self) k | Some v \<Rightarrow> Some v))
   \<and> (\<forall>i u. attr_item self ''id'' = Inr i \<longrightarrow>
          build_path e \<lparr>api_key = key, api_base = ''https://api.omise.co''\<rparr>
            (Segments [ORaw (PStr ''charges''), ORaw i]) = Inr u \<longrightarrow>
          patched e key w u (changed_with self kwargs) call body
          \<longrightarrow> Charge_update e self kwargs w
                = (Inr (self\<lparr>attributes := body, changeset := []\<rparr>), w @ [call])
              \<and> call_verb call = PATCH \<and> call_url call = u
              \<and> call_data call = changed_with self kwargs)
   \<and> (\<forall>i u. attr_item self ''id'' = Inr i \<longrightarrow>
          build_path e \<lparr>api_key = key, api_base = ''https://api.omise.co''\<rparr>
            (Segments [ORaw (PStr ''customers''), ORaw i]) = Inr u \<longrightarrow>
          patched e key w u (changed_with self kwargs) call body
          \<longrightarrow> Customer_update e self kwargs w
                = (Inr (self\<lparr>attributes := body, changeset := []\<rparr>), w @ [call])
              \<and> call_verb call = PATCH \<and> call_url call = u
              \<and> call_data call = changed_with self kwargs)
   \<and> (\<forall>i u. Base_getattr ''id'' self = Inr i \<longrightarrow>
          build_path e \<lparr>api_key = key, api_base = ''https://api.omise.co''\<rparr>
            (Segments [ORaw (PStr ''transfers''), i]) = Inr u \<longrightarrow>
          patched e key w u (changed_with self kwargs) call body
          \<longrightarrow> Transfer_update e self kwargs w
                = (Inr (self\<lparr>attributes := body, changeset := []\<rparr>), w @ [call])
              \<and> call_verb call = PATCH \<and> call_url call = u
              \<and> call_data call = changed_with self kwargs)
   \<and> (\<forall>loc u. attr_item self ''location'' = Inr loc \<longrightarrow>
          build_path e \<lparr>api_key = key, api_base = ''https://api.omise.co''\<rparr>
            (Single loc) = Inr u \<longrightarrow>
          patched e key w u (changed_with self kwargs) call body
          \<longrightarrow> Card_update e self kwargs w
                = (Inr (self\<lparr>attributes := body, changeset := []\<rparr>), w @ [call])
              \<and> call_verb call = PATCH \<and> call_url call = u
              \<and> call_data call = changed_with self kwargs)
   \<and> (\<forall>s. plain_segment s \<longrightarrow>
          build_path e \<lparr>api_key = key, api_base = ''https://api.omise.co''\<rparr>
            (Segments [ORaw (PStr ''charges''), ORaw (PStr s)])
            = Inr (''https://api.omise.co/charges/'' @ s)
        \<and> build_path e \<lparr>api_key = key, api_base = ''https://api.omise.co''\<rparr>
            (Segments [ORaw (PStr ''customers''), ORaw (PStr s)])
            = Inr (''https://api.omise.co/customers/'' @ s)
        \<and> build_path e \<lparr>api_key = key, api_base = ''https://api.omise.co''\<rparr>
            (Segments [ORaw (PStr ''transfers''), ORaw (PStr s)])
            = Inr (''https://api.omise.co/transfers/'' @ s))
   \<and> (\<forall>rel. list_all plain_segment (split_on CHR ''/'' rel) \<longrightarrow>
          build_path e \<lparr>api_key = key, api_base = ''https://api.omise.co''\<rparr>
            (Single (PStr (''/'' @ rel)))
            = Inr (''https://api.omise.co/'' @ rel))"
    using 1 2 3 4 5 6 7 by (intro conjI allI impI) blast+
qed

theorem update_merges_and_reloads_witness:
  "Charge_update example_env example_charge [(''description'', PStr ''new'')] []
     = (Inr \<lparr>cls_of = Charge,
             attributes = [(''object'', PStr ''charge''), (''id'', PStr ''chrg_1''),
                           (''description'', PStr ''new'')],
             changeset = [], own = []\<rparr>,
        [\<lparr>call_verb = PATCH,
          call_url = ''https://api.omise.co/charges/chrg_1'',
          call_data = [(''amount'', PInt 500), (''description'', PStr ''new'')],
          call_headers = [(''Accept'', PStr ''application/json''),
                          (''User-Agent'', PStr ''OmisePython/0.3.0 OmiseAPI/2014-07-27'')],
          call_auth = ''skey_test'',
          call_verify = ''data/ca_certificates.pem''\<rparr>])
   \<and> Customer_update
        (answering [(''object'', PStr ''customer''), (''id'', PStr ''cust_1''),
                    (''email'', PStr ''a@example.com''), (''description'', PStr ''vip'')])
        \<lparr>cls_of = Customer,
         attributes = [(''object'', PStr ''customer''), (''id'', PStr ''cust_1''),
                       (''email'', PStr ''a@example.com'')],
         changeset = [''email''], own = []\<rparr>
        [(''description'', PStr ''vip'')] []
     = (Inr \<lparr>cls_of = Customer,
             attributes = [(''object'', PStr ''customer''), (''id'', PStr ''cust_1''),
                           (''email'', PStr ''a@example.com''),
                           (''description'', PStr ''vip'')],
             changeset = [], own = []\<rparr>,
        [\<lparr>call_verb = PATCH,
          call_url = ''https://api.omise.co/customers/cust_1'',
          call_data = [(''email'', PStr ''a@example.com''), (''description'', PStr ''vip'')],
          call_headers = [(''Accept'', PStr ''application/json''),
                          (''User-Agent'', PStr ''OmisePython/0.3.0 OmiseAPI/2014-07-27'')],
          call_auth = ''skey_test'',
          call_verify = ''data/ca_certificates.pem''\<rparr>])
   \<and> Transfer_update
        (answering [(''object'', PStr ''transfer''), (''id'', PStr ''trsf_1''),
                    (''amount'', PInt 500)])
        \<lparr>cls_of = Transfer,
         attributes = [(''object'', PStr ''transfer''), (''id'', PStr ''trsf_1''),
                       (''amount'', PInt 1000)],
         changeset = [], own = []\<rparr>
        [(''amount'', PInt 500)] []
     = (Inr \<lparr>cls_of = Transfer,
             attributes = [(''object'', PStr ''transfer''), (''id'', PStr ''trsf_1''),
                           (''amount'', PInt 500)],
             changeset = [], own = []\<rparr>,
        [\<lparr>call_verb = PATCH,
          call_url = ''https://api.omise.co/transfers/trsf_1'',
          call_data = [(''amount'', PInt 500)],
          call_headers = [(''Accept'', PStr ''application/json''),
                          (''User-Agent'', PStr ''OmisePython/0.3.0 OmiseAPI/2014-07-27'')],
          call_auth = ''skey_test'',
          call_verify = ''data/ca_certificates.pem''\<rparr>])
   \<and> Card_update
        (answering [(''object'', PStr ''card''), (''id'', PStr ''card_1''),
                    (''location'', PStr ''/customers/cust_1/cards/card_1''),
                    (''name'', PStr ''B'')])
        \<lparr>cls_of = Card,
         attributes = [(''object'', PStr ''card''), (''id'', PStr ''card_1''),
                       (''location'', PStr ''/customers/cust_1/cards/card_1''),
                       (''name'', PStr ''A'')],
         changeset = [''name''], own = []\<rparr>
        [(''name'', PStr ''B'')] []
     = (Inr \<lparr>cls_of = Card,
             attributes = [(''object'', PStr ''card''), (''id'', PStr ''card_1''),
                           (''location'', PStr ''/customers/cust_1/cards/card_1''),
                           (''name'', PStr ''B'')],
             changeset = [], own = []\<rparr>,
        [\<lparr>call_verb = PATCH,
          call_url = ''https://api.omise.co/customers/cust_1/cards/card_1'',
          call_data = [(''name'', PStr ''B'')],
          call_headers = [(''Accept'', PStr ''application/json''),
                          (''User-Agent'', PStr ''OmisePython/0.3.0 OmiseAPI/2014-07-27'')],
          call_auth = ''skey_test'',
          call_verify = ''data/ca_certificates.pem''\<rparr>])"
proof -
  let ?r = "\<lparr>api_key = ''skey_test'', api_base = ''https://api.omise.co''\<rparr>"
  let ?hdrs = "[(''Accept'', PStr ''application/json''),
                (''User-Agent'', PStr ''OmisePython/0.3.0 OmiseAPI/2014-07-27'')]"
  have key: "api_secret example_env = Some ''skey_test''"
    "api_secret (answering b) = Some ''skey_test''" for b
    by (simp_all add: answering_def example_env_def)
  have version: "lib_version example_env = ''0.3.0''" "lib_version (answering b) = ''0.3.0''"
    for b
    by (simp_all add: answering_def example_env_def)
  have plain: "plain_segment ''chrg_1''" "plain_segment ''cust_1''" "plain_segment ''trsf_1''"
    by (simp_all add: plain_segment_def c0_control_or_space_def)
  have loc: "list_all plain_segment (split_on CHR ''/'' ''customers/cust_1/cards/card_1'')"
    by (simp add: plain_segment_def c0_control_or_space_def)

  let ?kw1 = "[(''description'', PStr ''new'')]"
  let ?p1 = "[(''amount'', PInt 500), (''description'', PStr ''new'')]"
  let ?b1 = "[(''object'', PStr ''charge''), (''id'', PStr ''chrg_1''),
              (''description'', PStr ''new'')]"
  let ?c1 = "\<lparr>call_verb = PATCH, call_url = ''https://api.omise.co/charges/chrg_1'',
              call_data = ?p1, call_headers = ?hdrs, call_auth = ''skey_test'',
              call_verify = ''data/ca_certificates.pem''\<rparr>"
  have i1: "attr_item example_charge ''id'' = Inr (PStr ''chrg_1'')"
    by (simp add: attr_item_def example_charge_def)
  have w1: "changed_with example_charge ?kw1 = ?p1"
    by (simp add: changed_with_def changes_def example_charge_def dict_get_def)
  have a1: "patched example_env ''skey_test'' [] ''https://api.omise.co/charges/chrg_1''
              (changed_with example_charge ?kw1) ?c1 ?b1"
    unfolding patched_def w1
    by (simp add: version success_body_def example_env_def example_http_def)
  have kw1: "distinct (map fst ?kw1)" by simp
  note t1 = update_merges_and_reloads
      [where e = example_env and key = "''skey_test''" and kwargs = ?kw1
         and self = example_charge and w = "[]" and call = ?c1 and body = ?b1,
       THEN mp, THEN mp, OF key(1) kw1]
  have "build_path example_env ?r
          (Segments [ORaw (PStr ''charges''), ORaw (PStr ''chrg_1'')])
        = Inr (''https://api.omise.co/charges/'' @ ''chrg_1'')"
    using t1 plain(1) by blast
  then have u1: "build_path example_env ?r
              (Segments [ORaw (PStr ''charges''), ORaw (PStr ''chrg_1'')])
            = Inr ''https://api.omise.co/charges/chrg_1''"
    by simp
  from t1 i1 u1 a1
  have 1: "Charge_update example_env example_charge ?kw1 []
             = (Inr (example_charge\<lparr>attributes := ?b1, changeset := []\<rparr>), [] @ [?c1])"
    by blast

  let ?kw2 = "[(''description'', PStr ''vip'')]"
  let ?s2 = "\<lparr>cls_of = Customer,
         attributes = [(''object'', PStr ''customer''), (''id'', PStr ''cust_1''),
                       (''email'', PStr ''a@example.com'')],
         changeset = [''email''], own = []\<rparr>"
  let ?p2 = "[(''email'', PStr ''a@example.com''), (''description'', PStr ''vip'')]"
  let ?b2 = "[(''object'', PStr ''customer''), (''id'', PStr ''cust_1''),
              (''email'', PStr ''a@example.com''), (''description'', PStr ''vip'')]"
  let ?c2 = "\<lparr>call_verb = PATCH, call_url = ''https://api.omise.co/customers/cust_1'',
              call_data = ?p2, call_headers = ?hdrs, call_auth = ''skey_test'',
              call_verify = ''data/ca_certificates.pem''\<rparr>"
  have i2: "attr_item ?s2 ''id'' = Inr (PStr ''cust_1'')"
    by (simp add: attr_item_def)
  have w2: "changed_with ?s2 ?kw2 = ?p2"
    by (simp add: changed_with_def changes_def dict_get_def)
  have a2: "patched (answering ?b2) ''skey_test'' [] ''https://api.omise.co/customers/cust_1''
              (changed_with ?s2 ?kw2) ?c2 ?b2"
    unfolding patched_def w2
    by (simp add: version success_body_def) (simp add: answering_def)
  have kw2: "distinct (map fst ?kw2)" by simp
  note t2 = update_merges_and_reloads
      [where e = "answering ?b2" and key = "''skey_test''" and kwargs = ?kw2
         and self = ?s2 and w = "[]" and call = ?c2 and body = ?b2,
       THEN mp, THEN mp, OF key(2) kw2]
  have "build_path (answering ?b2) ?r
          (Segments [ORaw (PStr ''customers''), ORaw (PStr ''cust_1'')])
        = Inr (''https://api.omise.co/customers/'' @ ''cust_1'')"
    using t2 plain(2) by blast
  then have u2: "build_path (answering ?b2) ?r
              (Segments [ORaw (PStr ''customers''), ORaw (PStr ''cust_1'')])
            = Inr ''https://api.omise.co/customers/cust_1''"
    by simp
  from t2 i2 u2 a2
  have 2: "Customer_update (answering ?b2) ?s2 ?kw2 []
             = (Inr (?s2\<lparr>attributes := ?b2, changeset := []\<rparr>), [] @ [?c2])"
    by blast

  let ?kw3 = "[(''amount'', PInt 500)]"
  let ?s3 = "\<lparr>cls_of = Transfer,
         attributes = [(''object'', PStr ''transfer''), (''id'', PStr ''trsf_1''),
                       (''amount'', PInt 1000)],
         changeset = [], own = []\<rparr>"
  let ?b3 = "[(''object'', PStr ''transfer''), (''id'', PStr ''trsf_1''),
              (''amount'', PInt 500)]"
  let ?c3 = "\<lparr>call_verb = PATCH, call_url = ''https://api.omise.co/transfers/trsf_1'',
              call_data = ?kw3, call_headers = ?hdrs, call_auth = ''skey_test'',
              call_verify = ''data/ca_certificates.pem''\<rparr>"
  have i3: "Base_getattr ''id'' ?s3 = Inr (ORaw (PStr ''trsf_1''))"
    by (simp add: Base_getattr_def)
  have w3: "changed_with ?s3 ?kw3 = ?kw3"
    by (simp add: changed_with_def changes_def dict_get_def)
  have a3: "patched (answering ?b3) ''skey_test'' [] ''https://api.omise.co/transfers/trsf_1''
              (changed_with ?s3 ?kw3) ?c3 ?b3"
    unfolding patched_def w3
    by (simp add: version success_body_def) (simp add: answering_def)
  have kw3: "distinct (map fst ?kw3)" by simp
  note t3 = update_merges_and_reloads
      [where e = "answering ?b3" and key = "''skey_test''" and kwargs = ?kw3
         and self = ?s3 and w = "[]" and call = ?c3 and body = ?b3,
       THEN mp, THEN mp, OF key(2) kw3]
  have "build_path (answering ?b3) ?r
          (Segments [ORaw (PStr ''transfers''), ORaw (PStr ''trsf_1'')])
        = Inr (''https://api.omise.co/transfers/'' @ ''trsf_1'')"
    using t3 plain(3) by blast
  then have u3: "build_path (answering ?b3) ?r
              (Segments [ORaw (PStr ''transfers''), ORaw (PStr ''trsf_1'')])
            = Inr ''https://api.omise.co/transfers/trsf_1''"
    by simp
  from t3 i3 u3 a3
  have 3: "Transfer_update (answering ?b3) ?s3 ?kw3 []
             = (Inr (?s3\<lparr>attributes := ?b3, changeset := []\<rparr>), [] @ [?c3])"
    by blast

  let ?kw4 = "[(''name'', PStr ''B'')]"
  let ?s4 = "\<lparr>cls_of = Card,
         attributes = [(''object'', PStr ''card''), (''id'', PStr ''card_1''),
                       (''location'', PStr ''/customers/cust_1/cards/card_1''),
                       (''name'', PStr ''A'')],
         changeset = [''name''], own = []\<rparr>"
  let ?b4 = "[(''object'', PStr ''card''), (''id'', PStr ''card_1''),
              (''location'', PStr ''/customers/cust_1/cards/card_1''),
              (''name'', PStr ''B'')]"
  let ?c4 = "\<lparr>call_verb = PATCH,
              call_url = ''https://api.omise.co/customers/cust_1/cards/card_1'',
              call_data = ?kw4, call_headers = ?hdrs, call_auth = ''skey_test'',
              call_verify = ''data/ca_certificates.pem''\<rparr>"
  have i4: "attr_item ?s4 ''location'' = Inr (PStr ''/customers/cust_1/cards/card_1'')"
    by (simp add: attr_item_def)
  have w4: "changed_with ?s4 ?kw4 = ?kw4"
    by (simp add: changed_with_def changes_def dict_get_def)
  have a4: "patched (answering ?b4) ''skey_test'' []
              ''https://api.omise.co/customers/cust_1/cards/card_1''
              (changed_with ?s4 ?kw4) ?c4 ?b4"
    unfolding patched_def w4
    by (simp add: version success_body_def) (simp add: answering_def)
  have kw4: "distinct (map fst ?kw4)" by simp
  note t4 = update_merges_and_reloads
      [where e = "answering ?b4" and key = "''skey_test''" and kwargs = ?kw4
         and self = ?s4 and w = "[]" and call = ?c4 and body = ?b4,
       THEN mp, THEN mp, OF key(2) kw4]
  have "build_path (answering ?b4) ?r (Single (PStr (''/'' @ ''customers/cust_1/cards/card_1'')))
            = Inr (''https://api.omise.co/'' @ ''customers/cust_1/cards/card_1'')"
    using t4 loc by blast
  then have u4: "build_path (answering ?b4) ?r
                   (Single (PStr ''/customers/cust_1/cards/card_1''))
                 = Inr ''https://api.omise.co/customers/cust_1/cards/card_1''"
    by simp
  from t4 i4 u4 a4
  have 4: "Card_update (answering ?b4) ?s4 ?kw4 []
             = (Inr (?s4\<lparr>attributes := ?b4, changeset := []\<rparr>), [] @ [?c4])"
    by blast
  from 1 2 3 4 show ?thesis
    by (simp add: example_charge_def)
qed

end
